theory Spec2Isabelle
  imports Main
begin

section \<open>Python values and exceptions\<close>

text \<open>
  The application stores and reads documents decoded by \<^verbatim>\<open>response.json()\<close>. A decoded
  document is a Python value built from \<^verbatim>\<open>None\<close>, booleans, integers, floats, strings,
  lists and dictionaries with string keys. A dictionary is an association list read with
  \<open>map_of\<close>: the first pair of a key is its entry. A float is a binary64 number, kept as a pair (mantissa, exponent) that
  denotes mantissa * 2^exponent (see the section on floats). A string is the list of
  its code points; \<open>py\<close> makes the string of a literal.
\<close>

type_synonym double = "int \<times> int"

type_synonym pystr = "int list"

definition py :: "string \<Rightarrow> pystr" where
  "py s = map of_char s"

datatype json =
    JNull
  | JBool bool
  | JInt int
  | JFloat double
  | JStr pystr
  | JArr "json list"
  | JObj "(pystr \<times> json) list"

text \<open>
  Exceptions are values. The constructor is the class the \<^verbatim>\<open>except\<close> clauses dispatch
  on; the string is the text \<^verbatim>\<open>str(e)\<close> is computed from.
\<close>

datatype py_exn =
    Timeout pystr
  | ConnectionError pystr
  | KeyError pystr
  | TypeError pystr
  | ValueError pystr
  | OverflowError pystr
  | UnicodeEncodeError pystr
  | IntegrityError pystr
  | DoesNotExist pystr
  | MultipleObjectsReturned pystr
  | OtherException pystr

definition sq :: pystr where
  "sq = py [CHR 0x27]"

fun exn_str :: "py_exn \<Rightarrow> pystr" where
  "exn_str (Timeout m) = m"
| "exn_str (ConnectionError m) = m"
| "exn_str (KeyError k) = sq @ k @ sq"
| "exn_str (TypeError m) = m"
| "exn_str (ValueError m) = m"
| "exn_str (OverflowError m) = m"
| "exn_str (UnicodeEncodeError m) = m"
| "exn_str (IntegrityError m) = m"
| "exn_str (DoesNotExist m) = m"
| "exn_str (MultipleObjectsReturned m) = m"
| "exn_str (OtherException m) = m"

text \<open>Sequencing of computations that may raise: the first exception wins.\<close>

fun sbind :: "'e + 'a \<Rightarrow> ('a \<Rightarrow> 'e + 'b) \<Rightarrow> 'e + 'b" where
  "sbind (Inl e) f = Inl e"
| "sbind (Inr x) f = f x"

subsection \<open>Truth value, subscription, membership and iteration\<close>

fun type_name :: "json \<Rightarrow> pystr" where
  "type_name JNull = (py ''NoneType'')"
| "type_name (JBool b) = (py ''bool'')"
| "type_name (JInt n) = (py ''int'')"
| "type_name (JFloat x) = (py ''float'')"
| "type_name (JStr s) = (py ''str'')"
| "type_name (JArr xs) = (py ''list'')"
| "type_name (JObj kvs) = (py ''dict'')"

text \<open>Python's truth value of a decoded document (\<^verbatim>\<open>if self.raw_data\<close>).\<close>

fun truthy :: "json \<Rightarrow> bool" where
  "truthy JNull = False"
| "truthy (JBool b) = b"
| "truthy (JInt n) = (n \<noteq> 0)"
| "truthy (JFloat x) = (fst x \<noteq> 0)"
| "truthy (JStr s) = (s \<noteq> [])"
| "truthy (JArr xs) = (xs \<noteq> [])"
| "truthy (JObj kvs) = (kvs \<noteq> [])"

text \<open>\<^verbatim>\<open>v[key]\<close> for a string key: only a dictionary answers, with KeyError when the
  key is missing; every other value raises TypeError.\<close>

fun subscript :: "json \<Rightarrow> pystr \<Rightarrow> py_exn + json" where
  "subscript (JObj kvs) k = (case map_of kvs k of None \<Rightarrow> Inl (KeyError k) | Some v \<Rightarrow> Inr v)"
| "subscript (JArr xs) k = Inl (TypeError (py ''list indices must be integers or slices, not str''))"
| "subscript (JStr s) k = Inl (TypeError (py ''pystr indices must be integers''))"
| "subscript v k = Inl (TypeError (sq @ type_name v @ sq @ (py '' object is not subscriptable'')))"

text \<open>\<^verbatim>\<open>v.get(key)\<close>: \<^verbatim>\<open>None\<close> for a missing key; only dictionaries have the method.\<close>

fun dict_get :: "json \<Rightarrow> pystr \<Rightarrow> py_exn + json" where
  "dict_get (JObj kvs) k = (case map_of kvs k of None \<Rightarrow> Inr JNull | Some v \<Rightarrow> Inr v)"
| "dict_get v k = Inl (OtherException (sq @ type_name v @ sq @ (py '' object has no attribute '') @ sq @ (py ''get'') @ sq))"

fun starts_with :: "pystr \<Rightarrow> pystr \<Rightarrow> bool" where
  "starts_with [] s = True"
| "starts_with (c # cs) [] = False"
| "starts_with (c # cs) (d # ds) = (c = d \<and> starts_with cs ds)"

text \<open>\<^verbatim>\<open>needle in haystack\<close> on strings: the needle occurs as a contiguous run.\<close>

fun str_contains :: "pystr \<Rightarrow> pystr \<Rightarrow> bool" where
  "str_contains needle [] = (needle = [])"
| "str_contains needle (c # cs) = (starts_with needle (c # cs) \<or> str_contains needle cs)"

text \<open>\<^verbatim>\<open>key in v\<close> for a string key: key membership in a dictionary, element membership
  in a list, substring test in a string, TypeError on everything else.\<close>

fun py_in :: "pystr \<Rightarrow> json \<Rightarrow> py_exn + bool" where
  "py_in k (JObj kvs) = Inr (k \<in> set (map fst kvs))"
| "py_in k (JArr xs) = Inr (JStr k \<in> set xs)"
| "py_in k (JStr s) = Inr (str_contains k s)"
| "py_in k v = Inl (TypeError ((py ''argument of type '') @ sq @ type_name v @ sq @ (py '' is not iterable'')))"

text \<open>\<^verbatim>\<open>for x in v\<close>: the elements of a list, the keys of a dictionary, the characters
  of a string; TypeError on everything else.\<close>

fun py_iter :: "json \<Rightarrow> py_exn + json list" where
  "py_iter (JArr xs) = Inr xs"
| "py_iter (JObj kvs) = Inr (map JStr (rev (remdups (rev (map fst kvs)))))"
| "py_iter (JStr s) = Inr (map (\<lambda>c. JStr [c]) s)"
| "py_iter v = Inl (TypeError (sq @ type_name v @ sq @ (py '' object is not iterable'')))"

section \<open>Floats\<close>

text \<open>
  Python's \<^verbatim>\<open>float\<close> is IEEE 754 binary64: 53 significant bits, every operation
  rounded to the nearest representable number, ties to the even mantissa. A nonzero
  double is kept in the canonical form \<open>(m, e)\<close> with \<open>2^52 \<le> \<bar>m\<bar> < 2^53\<close>, and zero as
  \<open>(0, 0)\<close>, so that two doubles are equal exactly when the pairs are. The exponent range
  is not bounded here: the model is exact for results of magnitude between \<open>2^-1022\<close>
  and \<open>2^1024\<close>, which covers every product of a database integer and \<^verbatim>\<open>0.1\<close>.
\<close>

function bit_length :: "int \<Rightarrow> nat" where
  "bit_length n = (if n \<le> 0 then 0 else Suc (bit_length (n div 2)))"
  by pat_completeness auto
termination
  by (relation "measure nat") auto

declare bit_length.simps [simp del]

text \<open>The quotient \<open>a / b\<close> rounded to the nearest integer, ties to even, for
  \<open>0 \<le> a\<close> and \<open>0 < b\<close>.\<close>

definition div_rne :: "int \<Rightarrow> int \<Rightarrow> int" where
  "div_rne a b =
     (let q = a div b; r = a mod b
      in if 2 * r < b then q else if b < 2 * r then q + 1 else if even q then q else q + 1)"

text \<open>The double nearest to \<open>a / b\<close> for positive \<open>a\<close> and \<open>b\<close>: \<open>L\<close> is the binary
  exponent of the quotient, \<open>2^L \<le> a / b < 2^(L + 1)\<close>.\<close>

definition round_pos :: "int \<Rightarrow> int \<Rightarrow> double" where
  "round_pos a b =
     (let d = int (bit_length a) - int (bit_length b);
          L = (if (0 \<le> d \<and> b * 2 ^ nat d \<le> a) \<or> (d < 0 \<and> b \<le> a * 2 ^ nat (- d))
               then d else d - 1);
          e = L - 52;
          m = (if 0 \<le> e then div_rne a (b * 2 ^ nat e) else div_rne (a * 2 ^ nat (- e)) b)
      in if m = 2 ^ 53 then (2 ^ 52, e + 1) else (m, e))"

definition round_ratio :: "int \<Rightarrow> int \<Rightarrow> double" where
  "round_ratio a b =
     (if a = 0 then (0, 0)
      else (let (m, e) = round_pos \<bar>a\<bar> b in (sgn a * m, e)))"

text \<open>\<^verbatim>\<open>float(n)\<close> for a Python integer, as the mixed product \<^verbatim>\<open>n * 0.1\<close> computes it
  first: correctly rounded, OverflowError when the result does not fit.\<close>

definition float_of_int :: "int \<Rightarrow> py_exn + double" where
  "float_of_int n =
     (let (m, e) = round_ratio n 1
      in if 1024 < e + 53 then Inl (OverflowError (py ''int too large to convert to float''))
         else Inr (m, e))"

text \<open>The product of two doubles: the exact product, rounded once.\<close>

definition float_mul :: "double \<Rightarrow> double \<Rightarrow> double" where
  "float_mul x y =
     (let m = fst x * fst y; e = snd x + snd y
      in if 0 \<le> e then round_ratio (m * 2 ^ nat e) 1 else round_ratio m (2 ^ nat (- e)))"

text \<open>The double a decimal literal \<open>a / b\<close> denotes, such as \<^verbatim>\<open>0.1\<close> = \<open>1 / 10\<close>.\<close>

definition float_literal :: "int \<Rightarrow> int \<Rightarrow> double" where
  "float_literal a b = round_ratio a b"

section \<open>The models (models.py)\<close>

text \<open>
  A row of \<^verbatim>\<open>Pokemon\<close>. \<open>pk\<close> is the automatic primary key. The two timestamps
  (\<^verbatim>\<open>created_at\<close>, \<^verbatim>\<open>updated_at\<close>) are wall-clock readings and are left out.
\<close>

record pokemon =
  pk :: nat
  pokemon_id :: int
  name :: pystr
  height :: int
  weight :: int
  base_experience :: "int option"
  raw_data :: json

text \<open>A row of \<^verbatim>\<open>APIRequest\<close>, without \<^verbatim>\<open>request_timestamp\<close>. \<^verbatim>\<open>None\<close> in
  \<^verbatim>\<open>response_data\<close> is \<open>JNull\<close>.\<close>

record api_request =
  pokemon_name :: pystr
  success :: bool
  error_message :: pystr
  http_status_code :: "int option"
  response_data :: json

subsection \<open>Derived properties of Pokemon\<close>

definition height_in_meters :: "pokemon \<Rightarrow> py_exn + double" where
  "height_in_meters p = sbind (float_of_int (height p)) (\<lambda>x. Inr (float_mul x (float_literal 1 10)))"

definition weight_in_kg :: "pokemon \<Rightarrow> py_exn + double" where
  "weight_in_kg p = sbind (float_of_int (weight p)) (\<lambda>x. Inr (float_mul x (float_literal 1 10)))"

text \<open>\<^verbatim>\<open>[type_data['type']['name'] for type_data in ...]\<close>\<close>

fun type_names :: "json list \<Rightarrow> py_exn + json list" where
  "type_names [] = Inr []"
| "type_names (type_data # rest) =
     (case sbind (subscript type_data (py ''type'')) (\<lambda>t. subscript t (py ''name'')) of
        Inl e \<Rightarrow> Inl e
      | Inr n \<Rightarrow> (case type_names rest of Inl e \<Rightarrow> Inl e | Inr ns \<Rightarrow> Inr (n # ns)))"

definition types :: "pokemon \<Rightarrow> py_exn + json list" where
  "types p =
     (if truthy (raw_data p) then
        sbind (py_in (py ''types'') (raw_data p)) (\<lambda>present.
          if present then
            sbind (subscript (raw_data p) (py ''types'')) (\<lambda>ts. sbind (py_iter ts) type_names)
          else Inr [])
      else Inr [])"

text \<open>
  \<^verbatim>\<open>[ability['ability']['name'] for ability in ... if <condition on ability['is_hidden']>]\<close>:
  the condition is evaluated first, the element expression only for the entries that
  pass. \<open>want_hidden\<close> is False for \<^verbatim>\<open>abilities\<close> (\<^verbatim>\<open>if not ability['is_hidden']\<close>) and True
  for \<^verbatim>\<open>hidden_abilities\<close>.
\<close>

fun ability_names :: "bool \<Rightarrow> json list \<Rightarrow> py_exn + json list" where
  "ability_names want_hidden [] = Inr []"
| "ability_names want_hidden (ability # rest) =
     (case subscript ability (py ''is_hidden'') of
        Inl e \<Rightarrow> Inl e
      | Inr h \<Rightarrow>
          if truthy h = want_hidden then
            (case sbind (subscript ability (py ''ability'')) (\<lambda>a. subscript a (py ''name'')) of
               Inl e \<Rightarrow> Inl e
             | Inr n \<Rightarrow>
                 (case ability_names want_hidden rest of
                    Inl e \<Rightarrow> Inl e
                  | Inr ns \<Rightarrow> Inr (n # ns)))
          else ability_names want_hidden rest)"

definition abilities :: "pokemon \<Rightarrow> py_exn + json list" where
  "abilities p =
     (if truthy (raw_data p) then
        sbind (py_in (py ''abilities'') (raw_data p)) (\<lambda>present.
          if present then
            sbind (subscript (raw_data p) (py ''abilities'')) (\<lambda>as. sbind (py_iter as) (ability_names False))
          else Inr [])
      else Inr [])"

definition hidden_abilities :: "pokemon \<Rightarrow> py_exn + json list" where
  "hidden_abilities p =
     (if truthy (raw_data p) then
        sbind (py_in (py ''abilities'') (raw_data p)) (\<lambda>present.
          if present then
            sbind (subscript (raw_data p) (py ''abilities'')) (\<lambda>as. sbind (py_iter as) (ability_names True))
          else Inr [])
      else Inr [])"

text \<open>
  The result of \<^verbatim>\<open>base_stats\<close> is a Python dictionary whose keys are whatever the
  payload holds under \<^verbatim>\<open>stat.name\<close>: an association list in insertion order. A key must
  be hashable (lists and dictionaries are not), and two keys are the same entry when
  Python's \<^verbatim>\<open>==\<close> says so: \<^verbatim>\<open>True == 1 == 1.0\<close>.
\<close>

fun hashable :: "json \<Rightarrow> bool" where
  "hashable (JArr xs) = False"
| "hashable (JObj kvs) = False"
| "hashable v = True"

text \<open>A number that is an integer, as that integer; everything else as itself.\<close>

fun key_norm :: "json \<Rightarrow> json" where
  "key_norm (JBool b) = JInt (if b then 1 else 0)"
| "key_norm (JFloat x) =
     (if fst x = 0 then JInt 0
      else if 0 \<le> snd x then JInt (fst x * 2 ^ nat (snd x))
      else if fst x mod 2 ^ nat (- snd x) = 0 then JInt (fst x div 2 ^ nat (- snd x))
      else JFloat x)"
| "key_norm v = v"

fun dict_set :: "(json \<times> json) list \<Rightarrow> json \<Rightarrow> json \<Rightarrow> (json \<times> json) list" where
  "dict_set [] k v = [(k, v)]"
| "dict_set ((k', v') # d) k v =
     (if key_norm k' = key_norm k then (k', v) # d else (k', v') # dict_set d k v)"

text \<open>\<^verbatim>\<open>{stat['stat']['name']: stat['base_stat'] for stat in ...}\<close>: key, then value, then
  the insertion, in the order of the sequence; a later entry replaces the value of an
  earlier one with the same key.\<close>

fun stat_items :: "(json \<times> json) list \<Rightarrow> json list \<Rightarrow> py_exn + (json \<times> json) list" where
  "stat_items d [] = Inr d"
| "stat_items d (stat # rest) =
     (case sbind (subscript stat (py ''stat'')) (\<lambda>s. subscript s (py ''name'')) of
        Inl e \<Rightarrow> Inl e
      | Inr k \<Rightarrow>
          (case subscript stat (py ''base_stat'') of
             Inl e \<Rightarrow> Inl e
           | Inr v \<Rightarrow>
               if hashable k then stat_items (dict_set d k v) rest
               else Inl (TypeError ((py ''unhashable type: '') @ sq @ type_name k @ sq))))"

definition base_stats :: "pokemon \<Rightarrow> py_exn + (json \<times> json) list" where
  "base_stats p =
     (if truthy (raw_data p) then
        sbind (py_in (py ''stats'') (raw_data p)) (\<lambda>present.
          if present then
            sbind (subscript (raw_data p) (py ''stats'')) (\<lambda>ss. sbind (py_iter ss) (stat_items []))
          else Inr [])
      else Inr [])"

section \<open>Strings: normalisation and formatting\<close>

text \<open>
  \<^verbatim>\<open>str.lower()\<close> and \<^verbatim>\<open>str.strip()\<close>. Below 256 the upper-case letters are A to Z and
  U+00C0 to U+00DE without the multiplication sign U+00D7, and the white space
  characters are U+0009 to U+000D, U+001C to U+0020, U+0085 and U+00A0. The surrogates
  U+D800 to U+DFFF have no lower-case form and are not white space. The other code
  points from 256 up are outside the model: it leaves them as they are.
\<close>

definition lower_char :: "int \<Rightarrow> int" where
  "lower_char n =
     (if (65 \<le> n \<and> n \<le> 90) \<or> (192 \<le> n \<and> n \<le> 222 \<and> n \<noteq> 215) then n + 32 else n)"

definition py_lower :: "pystr \<Rightarrow> pystr" where
  "py_lower s = map lower_char s"

definition is_space :: "int \<Rightarrow> bool" where
  "is_space n = ((9 \<le> n \<and> n \<le> 13) \<or> (28 \<le> n \<and> n \<le> 32) \<or> n = 133 \<or> n = 160)"

definition py_strip :: "pystr \<Rightarrow> pystr" where
  "py_strip s = rev (dropWhile is_space (rev (dropWhile is_space s)))"

text \<open>\<^verbatim>\<open>str(n)\<close> for an integer, as the f-strings format a status code.\<close>

definition digit_char :: "int \<Rightarrow> int" where
  "digit_char d = 48 + d"

function str_digits :: "int \<Rightarrow> pystr" where
  "str_digits n = (if n < 10 then [digit_char n] else str_digits (n div 10) @ [digit_char (n mod 10)])"
  by pat_completeness auto
termination
  by (relation "measure nat") auto

declare str_digits.simps [simp del]

definition str_int :: "int \<Rightarrow> pystr" where
  "str_int n = (if n < 0 then (py ''-'') @ str_digits (- n) else str_digits n)"

section \<open>The collaborators and the state\<close>

text \<open>
  What the service calls outside this repository is a parameter of the model, so every
  theorem holds for each behaviour of the provider, of the file storage and of Django's
  field conversion:
  \<^item> \<open>http_get url\<close> is \<^verbatim>\<open>self.session.get(url, timeout=self.TIMEOUT)\<close>: an exception or a
    response;
  \<^item> \<open>storage_save files filename content\<close> is \<^verbatim>\<open>default_storage.save\<close>: the files
    afterwards, and the exception if it raised;
  \<^item> \<open>json_dumps\<close> is \<^verbatim>\<open>json.dumps(data, indent=2)\<close> and \<open>py_str\<close> is \<^verbatim>\<open>str\<close> on a decoded
    value (the f-string that builds the file name);
  \<^item> \<open>prep_int\<close> and \<open>prep_char\<close> are what an \<^verbatim>\<open>IntegerField\<close> and a \<^verbatim>\<open>CharField\<close> that do
    not accept NULL make of a Python value on its way to the database: the stored value,
    or the exception raised for a value they reject.
  A response is its status code and the outcome of \<^verbatim>\<open>response.json()\<close>.
\<close>

datatype response = Response int "py_exn + json"

record runtime =
  http_get :: "pystr \<Rightarrow> py_exn + response"
  storage_save :: "(pystr \<times> pystr) list \<Rightarrow> pystr \<Rightarrow> pystr \<Rightarrow> (pystr \<times> pystr) list \<times> py_exn option"
  json_dumps :: "json \<Rightarrow> pystr"
  py_str :: "json \<Rightarrow> pystr"
  prep_int :: "json \<Rightarrow> py_exn + int"
  prep_char :: "json \<Rightarrow> py_exn + pystr"

datatype log_level = INFO | WARNING | ERROR

text \<open>
  The state the service reads and writes: the two tables (rows in insertion order), the
  next primary key of \<^verbatim>\<open>Pokemon\<close>, the stored files, the lines given to \<^verbatim>\<open>logger\<close>, and
  the URLs requested from the provider.
\<close>

record world =
  pokemons :: "pokemon list"
  next_pk :: nat
  api_requests :: "api_request list"
  files :: "(pystr \<times> pystr) list"
  app_log :: "(log_level \<times> pystr) list"
  provider_calls :: "pystr list"

definition logger :: "log_level \<Rightarrow> pystr \<Rightarrow> world \<Rightarrow> world" where
  "logger lvl msg w = w\<lparr>app_log := app_log w @ [(lvl, msg)]\<rparr>"

text \<open>
  \<^verbatim>\<open>APIRequest.objects.create\<close> hands the row to the database, which stores it or raises.
  What the database raises for a row, if anything, is one more parameter, of type
  \<open>request_db\<close>. \<open>api_request_create\<close> is the state after a row was stored, and
  \<open>request_create\<close> is the call.
\<close>

type_synonym request_db = "api_request \<Rightarrow> py_exn option"

definition api_request_create :: "api_request \<Rightarrow> world \<Rightarrow> world" where
  "api_request_create r w = w\<lparr>api_requests := api_requests w @ [r]\<rparr>"

definition request_create :: "request_db \<Rightarrow> api_request \<Rightarrow> world \<Rightarrow> py_exn + world" where
  "request_create db r w = (case db r of Some e \<Rightarrow> Inl e | None \<Rightarrow> Inr (api_request_create r w))"

text \<open>A database that stores every row.\<close>

definition accepts_every_row :: request_db where
  "accepts_every_row r = None"

section \<open>The Entity Cache: lookups and update_or_create\<close>

text \<open>\<^verbatim>\<open>Pokemon.objects.get(name=n)\<close>\<close>

definition objects_get_by_name :: "pokemon list \<Rightarrow> pystr \<Rightarrow> py_exn + pokemon" where
  "objects_get_by_name tbl n =
     (case filter (\<lambda>p. name p = n) tbl of
        [] \<Rightarrow> Inl (DoesNotExist (py ''Pokemon matching query does not exist.''))
      | [p] \<Rightarrow> Inr p
      | _ \<Rightarrow> Inl (MultipleObjectsReturned (py ''get() returned more than one Pokemon'')))"

text \<open>The \<^verbatim>\<open>defaults\<close> of the upsert, as the service takes them out of the payload.\<close>

record defaults =
  d_name :: json
  d_height :: json
  d_weight :: json
  d_base_experience :: json
  d_raw_data :: json

text \<open>\<^verbatim>\<open>base_experience\<close> is \<^verbatim>\<open>null=True\<close>: \<^verbatim>\<open>None\<close> is stored as NULL.\<close>

definition prep_int_null :: "runtime \<Rightarrow> json \<Rightarrow> py_exn + int option" where
  "prep_int_null rt v = (if v = JNull then Inr None else sbind (prep_int rt v) (\<lambda>n. Inr (Some n)))"

definition prep_row :: "runtime \<Rightarrow> nat \<Rightarrow> int \<Rightarrow> defaults \<Rightarrow> py_exn + pokemon" where
  "prep_row rt key i d =
     sbind (prep_char rt (d_name d)) (\<lambda>n.
     sbind (prep_int rt (d_height d)) (\<lambda>h.
     sbind (prep_int rt (d_weight d)) (\<lambda>wt.
     sbind (prep_int_null rt (d_base_experience d)) (\<lambda>be.
       Inr \<lparr>pk = key, pokemon_id = i, name = n, height = h, weight = wt,
            base_experience = be, raw_data = d_raw_data d\<rparr>))))"

text \<open>
  \<^verbatim>\<open>Pokemon.objects.update_or_create(pokemon_id=v, defaults=d)\<close> on the table \<open>tbl\<close>: the
  row with that \<^verbatim>\<open>pokemon_id\<close> is looked up; when there is none a row is inserted under
  the next primary key, when there is one its fields are overwritten in place. Both
  writes are checked against \<^verbatim>\<open>unique=True\<close> on \<^verbatim>\<open>name\<close> (\<^verbatim>\<open>pokemon_id\<close> cannot collide: the
  lookup just decided it). The call runs in a transaction: when it raises, the table is
  as before. The result is the row as stored, the \<^verbatim>\<open>created\<close> flag, the table and the next
  key. (The instance Django returns carries the values as the caller gave them; they
  are the stored ones wherever the field conversion changes nothing, as on every value
  of the provider contract.)
\<close>

definition update_or_create ::
  "runtime \<Rightarrow> pokemon list \<Rightarrow> nat \<Rightarrow> json \<Rightarrow> defaults \<Rightarrow> py_exn + (pokemon \<times> bool \<times> pokemon list \<times> nat)" where
  "update_or_create rt tbl key v d =
     sbind (prep_int rt v) (\<lambda>i.
       case filter (\<lambda>p. pokemon_id p = i) tbl of
         [] \<Rightarrow>
           sbind (prep_row rt key i d) (\<lambda>row.
             if name row \<in> set (map name tbl)
             then Inl (IntegrityError (py ''UNIQUE constraint failed: pokemon_api_pokemon.name''))
             else Inr (row, True, tbl @ [row], Suc key))
       | [old] \<Rightarrow>
           sbind (prep_row rt (pk old) i d) (\<lambda>row.
             if name row \<in> set (map name (filter (\<lambda>p. pokemon_id p \<noteq> i) tbl))
             then Inl (IntegrityError (py ''UNIQUE constraint failed: pokemon_api_pokemon.name''))
             else Inr (row, False, map (\<lambda>p. if pokemon_id p = i then row else p) tbl, key))
       | _ \<Rightarrow> Inl (MultipleObjectsReturned (py ''get() returned more than one Pokemon'')))"

section \<open>The service (services.py)\<close>

definition BASE_URL :: pystr where
  "BASE_URL = (py ''https://pokeapi.co/api/v2/pokemon/'')"

text \<open>\<^verbatim>\<open>_save_json_to_file\<close>: everything is inside its own \<^verbatim>\<open>try\<close>, and the handler only logs.\<close>

definition save_json_to_file :: "runtime \<Rightarrow> json \<Rightarrow> pystr \<Rightarrow> world \<Rightarrow> world" where
  "save_json_to_file rt data pname w =
     (case subscript data (py ''id'') of
        Inl e \<Rightarrow> logger ERROR ((py ''Failed to save JSON file: '') @ exn_str e) w
      | Inr i \<Rightarrow>
          (let filename = (py ''pokemon_data/'') @ pname @ (py ''_'') @ py_str rt i @ (py ''.json'');
               json_content = json_dumps rt data
           in case storage_save rt (files w) filename json_content of
                (fs, Some e) \<Rightarrow> logger ERROR ((py ''Failed to save JSON file: '') @ exn_str e) (w\<lparr>files := fs\<rparr>)
              | (fs, None) \<Rightarrow> logger INFO ((py ''Saved JSON data to '') @ filename) (w\<lparr>files := fs\<rparr>)))"

text \<open>\<^verbatim>\<open>_log_error\<close>: one unguarded \<^verbatim>\<open>APIRequest.objects.create\<close>. \<open>log_error\<close> is the state
  after the row was stored.\<close>

definition log_error_db :: "request_db \<Rightarrow> pystr \<Rightarrow> pystr \<Rightarrow> world \<Rightarrow> py_exn + world" where
  "log_error_db db pname msg w =
     request_create db
       \<lparr>pokemon_name = pname, success = False, error_message = msg,
        http_status_code = None, response_data = JNull\<rparr> w"

definition log_error :: "pystr \<Rightarrow> pystr \<Rightarrow> world \<Rightarrow> world" where
  "log_error pname msg w =
     api_request_create
       \<lparr>pokemon_name = pname, success = False, error_message = msg,
        http_status_code = None, response_data = JNull\<rparr> w"

text \<open>The triple \<^verbatim>\<open>(Pokemon instance or None, success boolean, error message)\<close>.\<close>

type_synonym fetch_result = "pokemon option \<times> bool \<times> pystr option"

text \<open>The arguments of \<^verbatim>\<open>update_or_create\<close>, evaluated left to right, then the call on
  the table \<open>tbl\<close> with next primary key \<open>key\<close>.\<close>

definition upsert_from_payload ::
  "runtime \<Rightarrow> json \<Rightarrow> pokemon list \<Rightarrow> nat \<Rightarrow> py_exn + (pokemon \<times> bool \<times> pokemon list \<times> nat)" where
  "upsert_from_payload rt data tbl key =
     sbind (subscript data (py ''id'')) (\<lambda>i.
     sbind (subscript data (py ''name'')) (\<lambda>n.
     sbind (subscript data (py ''height'')) (\<lambda>h.
     sbind (subscript data (py ''weight'')) (\<lambda>wt.
     sbind (dict_get data (py ''base_experience'')) (\<lambda>be.
       update_or_create rt tbl key i
         \<lparr>d_name = n, d_height = h, d_weight = wt, d_base_experience = be, d_raw_data = data\<rparr>)))))"

text \<open>
  The body of the \<^verbatim>\<open>try\<close> block of \<^verbatim>\<open>fetch_pokemon\<close>, for the normalised name. An
  exception leaves it together with the state at the moment it was raised: what was
  written before stays written.
\<close>

definition fetch_try_db ::
  "request_db \<Rightarrow> runtime \<Rightarrow> pystr \<Rightarrow> world \<Rightarrow> (py_exn \<times> world) + (fetch_result \<times> world)" where
  "fetch_try_db db rt pname w0 =
     (let url = BASE_URL @ pname @ (py ''/'');
          w1 = logger INFO ((py ''Fetching Pokemon data for: '') @ pname) w0;
          w2 = w1\<lparr>provider_calls := provider_calls w1 @ [url]\<rparr>
      in case http_get rt url of
           Inl e \<Rightarrow> Inl (e, w2)
         | Inr (Response status_code body) \<Rightarrow>
             (case (if status_code = 200 then body else Inr JNull) of
                Inl e \<Rightarrow> Inl (e, w2)
              | Inr rd \<Rightarrow>
                  (case request_create db
                              \<lparr>pokemon_name = pname,
                               success = (status_code = 200),
                               error_message = (if status_code = 200 then [] else (py ''HTTP '') @ str_int status_code),
                               http_status_code = Some status_code,
                               response_data = rd\<rparr> w2 of
                     Inl e \<Rightarrow> Inl (e, w2)
                   | Inr w3 \<Rightarrow>
                      if status_code = 200 then
                        (case body of
                           Inl e \<Rightarrow> Inl (e, w3)
                         | Inr data \<Rightarrow>
                             (let w4 = save_json_to_file rt data pname w3
                              in case upsert_from_payload rt data (pokemons w4) (next_pk w4) of
                                   Inl e \<Rightarrow> Inl (e, w4)
                                 | Inr (p, created, tbl', key') \<Rightarrow>
                                     Inr ((Some p, True, None),
                                          logger INFO ((if created then (py ''Created'') else (py ''Updated'')) @ (py '' Pokemon: '') @ name p)
                                            (w4\<lparr>pokemons := tbl', next_pk := key'\<rparr>))))
                      else if status_code = 404 then
                        (let error_msg = (py ''Pokemon '') @ sq @ pname @ sq @ (py '' not found'')
                         in Inr ((None, False, Some error_msg), logger WARNING error_msg w3))
                      else
                        (let error_msg = (py ''API request failed with status '') @ str_int status_code
                         in Inr ((None, False, Some error_msg), logger ERROR error_msg w3)))))"

text \<open>The three \<^verbatim>\<open>except\<close> clauses, tried in the order of the source.\<close>

fun error_msg_of :: "pystr \<Rightarrow> py_exn \<Rightarrow> pystr" where
  "error_msg_of pname (Timeout m) = (py ''Request timeout for Pokemon: '') @ pname"
| "error_msg_of pname (ConnectionError m) = (py ''Connection error when fetching Pokemon: '') @ pname"
| "error_msg_of pname e = (py ''Unexpected error: '') @ exn_str e"

text \<open>The body of a clause: the message is logged, \<^verbatim>\<open>_log_error\<close> writes its row, and the
  triple is returned. When \<^verbatim>\<open>_log_error\<close> raises, nothing catches its exception.\<close>

definition fetch_except_db ::
  "request_db \<Rightarrow> pystr \<Rightarrow> py_exn \<Rightarrow> world \<Rightarrow> (py_exn \<times> world) + (fetch_result \<times> world)" where
  "fetch_except_db db pname e w =
     (let error_msg = error_msg_of pname e;
          w1 = logger ERROR error_msg w
      in case log_error_db db pname error_msg w1 of
           Inl x \<Rightarrow> Inl (x, w1)
         | Inr w2 \<Rightarrow> Inr ((None, False, Some error_msg), w2))"

text \<open>\<^verbatim>\<open>PokemonAPIService.fetch_pokemon\<close> over the database \<open>db\<close>: \<open>Inl\<close> is an exception
  that reaches the caller.\<close>

definition fetch_pokemon_db ::
  "request_db \<Rightarrow> runtime \<Rightarrow> pystr \<Rightarrow> world \<Rightarrow> (py_exn \<times> world) + (fetch_result \<times> world)" where
  "fetch_pokemon_db db rt pname w =
     (let normalised = py_strip (py_lower pname)
      in case fetch_try_db db rt normalised w of
           Inr r \<Rightarrow> Inr r
         | Inl (e, w') \<Rightarrow> fetch_except_db db normalised e w')"

text \<open>
  The service over a database that stores every row of the Request Log. The properties
  of the branches of the flow are stated for it.
\<close>

definition fetch_try :: "runtime \<Rightarrow> pystr \<Rightarrow> world \<Rightarrow> (py_exn \<times> world) + (fetch_result \<times> world)" where
  "fetch_try rt pname w = fetch_try_db accepts_every_row rt pname w"

definition fetch_except :: "pystr \<Rightarrow> py_exn \<Rightarrow> world \<Rightarrow> (py_exn \<times> world) + (fetch_result \<times> world)" where
  "fetch_except pname e w = fetch_except_db accepts_every_row pname e w"

definition fetch_pokemon :: "runtime \<Rightarrow> pystr \<Rightarrow> world \<Rightarrow> (py_exn \<times> world) + (fetch_result \<times> world)" where
  "fetch_pokemon rt pname w = fetch_pokemon_db accepts_every_row rt pname w"

section \<open>The views (views.py)\<close>

text \<open>The dictionary under \<^verbatim>\<open>'data'\<close> of a successful JSON answer; building it evaluates
  the derived properties in this order, and the first one that raises ends it.\<close>

record payload =
  p_id :: int
  p_name :: pystr
  p_height :: int
  p_weight :: int
  p_height_meters :: double
  p_weight_kg :: double
  p_base_experience :: "int option"
  p_types :: "json list"
  p_abilities :: "json list"
  p_hidden_abilities :: "json list"
  p_base_stats :: "(json \<times> json) list"

definition pokemon_payload :: "pokemon \<Rightarrow> py_exn + payload" where
  "pokemon_payload p =
     sbind (height_in_meters p) (\<lambda>hm.
     sbind (weight_in_kg p) (\<lambda>wk.
     sbind (types p) (\<lambda>ts.
     sbind (abilities p) (\<lambda>as.
     sbind (hidden_abilities p) (\<lambda>hs.
     sbind (base_stats p) (\<lambda>bs.
       Inr \<lparr>p_id = pokemon_id p, p_name = name p, p_height = height p, p_weight = weight p,
            p_height_meters = hm, p_weight_kg = wk, p_base_experience = base_experience p,
            p_types = ts, p_abilities = as, p_hidden_abilities = hs, p_base_stats = bs\<rparr>))))))"

datatype response_body = SuccessBody payload | ErrorBody pystr

datatype json_response = JsonResponse response_body int

text \<open>
  \<^verbatim>\<open>PokemonAPIView.get\<close>. The \<^verbatim>\<open>try\<close> covers the lookup and the answer built from the
  row; only \<^verbatim>\<open>Pokemon.DoesNotExist\<close> is caught. The lookup is by \<^verbatim>\<open>pokemon_name.lower()\<close>.
  Both views come over a database \<open>db\<close> and, under the name of the source, over the
  database that stores every row.
\<close>

definition api_view_get_db ::
  "request_db \<Rightarrow> runtime \<Rightarrow> pystr \<Rightarrow> world \<Rightarrow> (py_exn \<times> world) + (json_response \<times> world)" where
  "api_view_get_db db rt pname w =
     (case sbind (objects_get_by_name (pokemons w) (py_lower pname)) pokemon_payload of
        Inr b \<Rightarrow> Inr (JsonResponse (SuccessBody b) 200, w)
      | Inl (DoesNotExist m) \<Rightarrow>
          (case fetch_pokemon_db db rt pname w of
             Inl x \<Rightarrow> Inl x
           | Inr ((pokemon, ok, err), w') \<Rightarrow>
               if ok then
                 (case pokemon of
                    None \<Rightarrow> Inl (OtherException (py ''NoneType object has no attribute pokemon_id''), w')
                  | Some p \<Rightarrow>
                      (case pokemon_payload p of
                         Inl e \<Rightarrow> Inl (e, w')
                       | Inr b \<Rightarrow> Inr (JsonResponse (SuccessBody b) 200, w')))
               else
                 (case err of
                    None \<Rightarrow> Inl (TypeError (py ''argument of type NoneType is not iterable''), w')
                  | Some msg \<Rightarrow>
                      Inr (JsonResponse (ErrorBody msg) (if str_contains (py ''not found'') msg then 404 else 500), w')))
      | Inl e \<Rightarrow> Inl (e, w))"

definition api_view_get :: "runtime \<Rightarrow> pystr \<Rightarrow> world \<Rightarrow> (py_exn \<times> world) + (json_response \<times> world)" where
  "api_view_get rt pname w = api_view_get_db accepts_every_row rt pname w"

text \<open>
  \<^verbatim>\<open>PokemonSearchView.form_valid\<close> for the cleaned \<^verbatim>\<open>pokemon_name\<close>: the flash message
  (level and text) and the page the browser is sent to.
\<close>

datatype page = SearchPage | DetailPage nat

datatype message_level = MsgSuccess | MsgError

definition form_valid_db ::
  "request_db \<Rightarrow> runtime \<Rightarrow> pystr \<Rightarrow> world \<Rightarrow> (py_exn \<times> world) + (((message_level \<times> pystr) \<times> page) \<times> world)" where
  "form_valid_db db rt pname w =
     (case fetch_pokemon_db db rt pname w of
        Inl x \<Rightarrow> Inl x
      | Inr ((pokemon, ok, err), w') \<Rightarrow>
          if ok then
            (case pokemon of
               None \<Rightarrow> Inl (OtherException (py ''NoneType object has no attribute name''), w')
             | Some p \<Rightarrow>
                 Inr (((MsgSuccess, (py ''Successfully fetched data for '') @ name p @ (py ''!'')), DetailPage (pk p)), w'))
          else
            Inr (((MsgError, (py ''Error: '') @ (case err of None \<Rightarrow> (py ''None'') | Some msg \<Rightarrow> msg)), SearchPage), w'))"

definition form_valid ::
  "runtime \<Rightarrow> pystr \<Rightarrow> world \<Rightarrow> (py_exn \<times> world) + (((message_level \<times> pystr) \<times> page) \<times> world)" where
  "form_valid rt pname w = form_valid_db accepts_every_row rt pname w"

section \<open>Observing a call\<close>

text \<open>What the caller of an operation sees (the value returned or the exception
  raised), and the state the operation leaves behind.\<close>

definition outcome :: "('e \<times> world) + ('a \<times> world) \<Rightarrow> 'e + 'a" where
  "outcome r = (case r of Inl (e, w) \<Rightarrow> Inl e | Inr (x, w) \<Rightarrow> Inr x)"

definition final_world :: "('e \<times> world) + ('a \<times> world) \<Rightarrow> world" where
  "final_world r = (case r of Inl (e, w) \<Rightarrow> w | Inr (x, w) \<Rightarrow> w)"

text \<open>The key is in the value, as \<^verbatim>\<open>key in value\<close> finds it in a container: a key of the
  dictionary, an element of the list, a part of the string.\<close>

fun has_key :: "json \<Rightarrow> pystr \<Rightarrow> bool" where
  "has_key (JObj kvs) k = (k \<in> set (map fst kvs))"
| "has_key (JArr xs) k = (JStr k \<in> set xs)"
| "has_key (JStr s) k = str_contains k s"
| "has_key v k = False"

fun is_container :: "json \<Rightarrow> bool" where
  "is_container (JObj kvs) = True"
| "is_container (JArr xs) = True"
| "is_container (JStr s) = True"
| "is_container v = False"

fun is_dict :: "json \<Rightarrow> bool" where
  "is_dict (JObj kvs) = True"
| "is_dict v = False"

section \<open>Concrete collaborators for the examples\<close>

text \<open>
  A runtime for the examples: the provider and the storage are given, the field
  conversions accept the values of the provider contract (an integer for an integer
  field, a string for a character field) and reject every other value, and \<open>py_str\<close>
  formats integers and strings.
\<close>

definition example_runtime ::
  "(pystr \<Rightarrow> py_exn + response) \<Rightarrow> bool \<Rightarrow> runtime" where
  "example_runtime provider storage_ok =
     \<lparr>http_get = provider,
      storage_save = (\<lambda>fs filename content.
         if storage_ok then (fs @ [(filename, content)], None)
         else (fs, Some (OtherException (py ''[Errno 28] No space left on device'')))),
      json_dumps = type_name,
      py_str = (\<lambda>v. case v of JInt n \<Rightarrow> str_int n | JStr s \<Rightarrow> s | _ \<Rightarrow> type_name v),
      prep_int = (\<lambda>v. case v of JInt n \<Rightarrow> Inr n | _ \<Rightarrow> Inl (ValueError (py ''expected a number''))),
      prep_char = (\<lambda>v. case v of JStr s \<Rightarrow> Inr s | _ \<Rightarrow> Inl (ValueError (py ''expected a pystr'')))\<rparr>"

definition empty_world :: world where
  "empty_world =
     \<lparr>pokemons = [], next_pk = 1, api_requests = [], files = [], app_log = [], provider_calls = []\<rparr>"

text \<open>A provider that answers every request with the same status and document.\<close>

definition answers :: "int \<Rightarrow> json \<Rightarrow> pystr \<Rightarrow> py_exn + response" where
  "answers status_code doc url = Inr (Response status_code (Inr doc))"

text \<open>The document of the specification's example.\<close>

definition ditto_json :: json where
  "ditto_json =
     JObj [((py ''id''), JInt 132), ((py ''name''), JStr (py ''ditto'')), ((py ''height''), JInt 3), ((py ''weight''), JInt 40),
           ((py ''abilities''),
              JArr [JObj [((py ''ability''), JObj [((py ''name''), JStr (py ''limber''))]), ((py ''is_hidden''), JBool False)]])]"

definition ditto_entity :: pokemon where
  "ditto_entity =
     \<lparr>pk = 1, pokemon_id = 132, name = (py ''ditto''), height = 3, weight = 40,
      base_experience = None, raw_data = ditto_json\<rparr>"

text \<open>The state in which the example's entity is already cached.\<close>

definition ditto_world :: world where
  "ditto_world = empty_world\<lparr>pokemons := [ditto_entity], next_pk := 2\<rparr>"

text \<open>The exceptions that reading a payload or converting an integer can raise.\<close>

fun lookup_error :: "py_exn \<Rightarrow> bool" where
  "lookup_error (KeyError k) = True"
| "lookup_error (TypeError m) = True"
| "lookup_error (OverflowError m) = True"
| "lookup_error e = False"

text \<open>What a call shows outside the file storage and the logger: the outcome, the
  Pokemon table with its next key, the Request Log and the provider calls.\<close>

definition visible ::
  "('e \<times> world) + ('a \<times> world) \<Rightarrow> ('e + 'a) \<times> pokemon list \<times> nat \<times> api_request list \<times> pystr list" where
  "visible r =
     (outcome r, pokemons (final_world r), next_pk (final_world r), api_requests (final_world r),
      provider_calls (final_world r))"

text \<open>A later document of the provider for the same \<^verbatim>\<open>id\<close>, with other values, and the
  row of its values.\<close>

definition grown_json :: json where
  "grown_json =
     JObj [((py ''id''), JInt 132), ((py ''name''), JStr (py ''ditto'')), ((py ''height''), JInt 4),
           ((py ''weight''), JInt 41), ((py ''base_experience''), JInt 101)]"

definition grown_entity :: pokemon where
  "grown_entity =
     \<lparr>pk = 1, pokemon_id = 132, name = (py ''ditto''), height = 4, weight = 41,
      base_experience = Some 101, raw_data = grown_json\<rparr>"

text \<open>A document whose \<^verbatim>\<open>name\<close> starts with a capital letter, and the row made of it.\<close>

definition capital_json :: json where
  "capital_json =
     JObj [((py ''id''), JInt 132), ((py ''name''), JStr (py ''Ditto'')), ((py ''height''), JInt 3), ((py ''weight''), JInt 40)]"

definition capital_entity :: pokemon where
  "capital_entity =
     \<lparr>pk = 1, pokemon_id = 132, name = (py ''Ditto''), height = 3, weight = 40,
      base_experience = None, raw_data = capital_json\<rparr>"




text \<open>A document whose only entry under \<^verbatim>\<open>types\<close> has no \<^verbatim>\<open>type\<close>, and the row made
  of it.\<close>

definition slot_json :: json where
  "slot_json =
     JObj [((py ''id''), JInt 1), ((py ''name''), JStr (py ''bulbasaur'')), ((py ''height''), JInt 7), ((py ''weight''), JInt 69),
           ((py ''types''), JArr [JObj [((py ''slot''), JInt 1)]])]"

definition slot_entity :: pokemon where
  "slot_entity =
     \<lparr>pk = 1, pokemon_id = 1, name = (py ''bulbasaur''), height = 7, weight = 69,
      base_experience = None, raw_data = slot_json\<rparr>"

text \<open>
  A database whose driver hands text to the database in UTF-8, as the drivers of SQLite
  and PostgreSQL do. A lone surrogate (U+D800 to U+DFFF) has no UTF-8 encoding: a row
  with one in a text field is not stored, the write raises \<^verbatim>\<open>UnicodeEncodeError\<close> with
  Python's message for the first run of surrogates.
\<close>

definition is_surrogate :: "int \<Rightarrow> bool" where
  "is_surrogate n = (55296 \<le> n \<and> n \<le> 57343)"

definition hex_digit :: "int \<Rightarrow> int" where
  "hex_digit d = (if d < 10 then 48 + d else 87 + d)"

definition hex4 :: "int \<Rightarrow> pystr" where
  "hex4 n = [hex_digit (n div 4096 mod 16), hex_digit (n div 256 mod 16), hex_digit (n div 16 mod 16),
             hex_digit (n mod 16)]"

definition utf8_error :: "pystr \<Rightarrow> py_exn option" where
  "utf8_error s =
     (let before = takeWhile (\<lambda>c. \<not> is_surrogate c) s;
          run = takeWhile is_surrogate (dropWhile (\<lambda>c. \<not> is_surrogate c) s);
          start = int (length before)
      in if run = [] then None
         else Some (UnicodeEncodeError
           (sq @ py ''utf-8'' @ sq @ py '' codec can'' @ sq @
            (if length run = 1
             then py ''t encode character '' @ sq @ [92] @ py ''u'' @ hex4 (hd run) @ sq @
                  py '' in position '' @ str_int start
             else py ''t encode characters in position '' @ str_int start @ py ''-'' @
                  str_int (start + int (length run) - 1)) @
            py '': surrogates not allowed'')))"

definition utf8_db :: request_db where
  "utf8_db r = (case utf8_error (pokemon_name r) of Some e \<Rightarrow> Some e | None \<Rightarrow> utf8_error (error_message r))"

text \<open>A provider whose every request times out.\<close>

definition times_out :: "pystr \<Rightarrow> py_exn + response" where
  "times_out url = Inl (Timeout (py ''Read timed out. (read timeout=30)''))"

text \<open>The name \<^verbatim>\<open>'\udcff'\<close>: what the management command receives for the command line
  byte 0xFF, which the interpreter decodes with \<^verbatim>\<open>surrogateescape\<close>.\<close>

definition surrogate_name :: pystr where
  "surrogate_name = [56575]"

text \<open>Rows whose payload is not a dictionary: a number, a list, a string.\<close>

definition number_entity :: pokemon where
  "number_entity = slot_entity\<lparr>raw_data := JInt 5\<rparr>"

definition list_entity :: pokemon where
  "list_entity = slot_entity\<lparr>raw_data := JArr [JInt 1]\<rparr>"

definition text_entity :: pokemon where
  "text_entity = slot_entity\<lparr>raw_data := JStr (py ''abc'')\<rparr>"

text \<open>The exception of \<^verbatim>\<open>key in value\<close> on a value that is no container.\<close>

definition not_iterable :: "json \<Rightarrow> py_exn" where
  "not_iterable v = TypeError (py ''argument of type '' @ sq @ type_name v @ sq @ py '' is not iterable'')"

text \<open>
  The provider's document \<open>data\<close> is well formed and \<open>r\<close> is the row of its values: the
  document has \<^verbatim>\<open>id\<close>, \<^verbatim>\<open>name\<close>, \<^verbatim>\<open>height\<close> and \<^verbatim>\<open>weight\<close>, the field conversion accepts them
  and \<^verbatim>\<open>base_experience\<close>, and the fields of \<open>r\<close>, its primary key apart, are the converted
  values and the document itself.
\<close>

definition denotes :: "runtime \<Rightarrow> json \<Rightarrow> pokemon \<Rightarrow> bool" where
  "denotes rt data r =
     (sbind (subscript data (py ''id'')) (prep_int rt) = Inr (pokemon_id r)
      \<and> sbind (subscript data (py ''name'')) (prep_char rt) = Inr (name r)
      \<and> sbind (subscript data (py ''height'')) (prep_int rt) = Inr (height r)
      \<and> sbind (subscript data (py ''weight'')) (prep_int rt) = Inr (weight r)
      \<and> sbind (dict_get data (py ''base_experience'')) (prep_int_null rt) = Inr (base_experience r)
      \<and> raw_data r = data)"

text \<open>The primary key of the row with \<^verbatim>\<open>pokemon_id\<close> \<open>i\<close>: the key of the row the table
  has, or the next key when it has none.\<close>

definition row_key :: "pokemon list \<Rightarrow> nat \<Rightarrow> int \<Rightarrow> nat" where
  "row_key tbl key i = (case filter (\<lambda>p. pokemon_id p = i) tbl of [] \<Rightarrow> key | old # rest \<Rightarrow> pk old)"

text \<open>A state with one cached entity, of another \<^verbatim>\<open>pokemon_id\<close>.\<close>

definition bulbasaur_world :: world where
  "bulbasaur_world = empty_world\<lparr>pokemons := [slot_entity], next_pk := 2\<rparr>"

section \<open>Properties of the service\<close>

lemma py_append [simp]: "py a @ py b = py (a @ b)"
  by (simp add: py_def)

lemma py_append_left [simp]: "py a @ py b @ s = py (a @ b) @ s"
  by (simp add: py_def)

lemma py_eq_iff [simp]: "(py a = py b) = (a = b)"
  by (simp add: py_def inj_map_eq_map inj_def)

subsection \<open>The service over a database that stores every row\<close>

lemma fetch_try_working:
  "fetch_try rt pname w0 =
     (let url = BASE_URL @ pname @ (py ''/'');
          w1 = logger INFO ((py ''Fetching Pokemon data for: '') @ pname) w0;
          w2 = w1\<lparr>provider_calls := provider_calls w1 @ [url]\<rparr>
      in case http_get rt url of
           Inl e \<Rightarrow> Inl (e, w2)
         | Inr (Response status_code body) \<Rightarrow>
             (case (if status_code = 200 then body else Inr JNull) of
                Inl e \<Rightarrow> Inl (e, w2)
              | Inr rd \<Rightarrow>
                  (let w3 = api_request_create
                              \<lparr>pokemon_name = pname,
                               success = (status_code = 200),
                               error_message = (if status_code = 200 then [] else (py ''HTTP '') @ str_int status_code),
                               http_status_code = Some status_code,
                               response_data = rd\<rparr> w2
                   in if status_code = 200 then
                        (case body of
                           Inl e \<Rightarrow> Inl (e, w3)
                         | Inr data \<Rightarrow>
                             (let w4 = save_json_to_file rt data pname w3
                              in case upsert_from_payload rt data (pokemons w4) (next_pk w4) of
                                   Inl e \<Rightarrow> Inl (e, w4)
                                 | Inr (p, created, tbl', key') \<Rightarrow>
                                     Inr ((Some p, True, None),
                                          logger INFO ((if created then (py ''Created'') else (py ''Updated'')) @ (py '' Pokemon: '') @ name p)
                                            (w4\<lparr>pokemons := tbl', next_pk := key'\<rparr>))))
                      else if status_code = 404 then
                        (let error_msg = (py ''Pokemon '') @ sq @ pname @ sq @ (py '' not found'')
                         in Inr ((None, False, Some error_msg), logger WARNING error_msg w3))
                      else
                        (let error_msg = (py ''API request failed with status '') @ str_int status_code
                         in Inr ((None, False, Some error_msg), logger ERROR error_msg w3)))))"
  unfolding fetch_try_def fetch_try_db_def request_create_def accepts_every_row_def Let_def
  by (auto split: sum.splits response.splits prod.splits)

lemma fetch_except_working:
  "fetch_except pname e w =
     (let error_msg = error_msg_of pname e
      in Inr ((None, False, Some error_msg), log_error pname error_msg (logger ERROR error_msg w)))"
  by (simp add: fetch_except_def fetch_except_db_def log_error_db_def log_error_def
      request_create_def accepts_every_row_def Let_def)

lemma fetch_pokemon_working:
  "fetch_pokemon rt pname w =
     (let normalised = py_strip (py_lower pname)
      in case fetch_try rt normalised w of
           Inr r \<Rightarrow> Inr r
         | Inl (e, w') \<Rightarrow> fetch_except normalised e w')"
  unfolding fetch_pokemon_def fetch_pokemon_db_def fetch_try_def fetch_except_def
  by (rule refl)

lemma api_view_get_working:
  "api_view_get rt pname w =
     (case sbind (objects_get_by_name (pokemons w) (py_lower pname)) pokemon_payload of
        Inr b \<Rightarrow> Inr (JsonResponse (SuccessBody b) 200, w)
      | Inl (DoesNotExist m) \<Rightarrow>
          (case fetch_pokemon rt pname w of
             Inl x \<Rightarrow> Inl x
           | Inr ((pokemon, ok, err), w') \<Rightarrow>
               if ok then
                 (case pokemon of
                    None \<Rightarrow> Inl (OtherException (py ''NoneType object has no attribute pokemon_id''), w')
                  | Some p \<Rightarrow>
                      (case pokemon_payload p of
                         Inl e \<Rightarrow> Inl (e, w')
                       | Inr b \<Rightarrow> Inr (JsonResponse (SuccessBody b) 200, w')))
               else
                 (case err of
                    None \<Rightarrow> Inl (TypeError (py ''argument of type NoneType is not iterable''), w')
                  | Some msg \<Rightarrow>
                      Inr (JsonResponse (ErrorBody msg) (if str_contains (py ''not found'') msg then 404 else 500), w')))
      | Inl e \<Rightarrow> Inl (e, w))"
  unfolding api_view_get_def api_view_get_db_def fetch_pokemon_def
  by (rule refl)

lemma form_valid_working:
  "form_valid rt pname w =
     (case fetch_pokemon rt pname w of
        Inl x \<Rightarrow> Inl x
      | Inr ((pokemon, ok, err), w') \<Rightarrow>
          if ok then
            (case pokemon of
               None \<Rightarrow> Inl (OtherException (py ''NoneType object has no attribute name''), w')
             | Some p \<Rightarrow>
                 Inr (((MsgSuccess, (py ''Successfully fetched data for '') @ name p @ (py ''!'')), DetailPage (pk p)), w'))
          else
            Inr (((MsgError, (py ''Error: '') @ (case err of None \<Rightarrow> (py ''None'') | Some msg \<Rightarrow> msg)), SearchPage), w'))"
  unfolding form_valid_def form_valid_db_def fetch_pokemon_def
  by (rule refl)

lemma fetch_try_result:
  "fetch_try rt n w = Inr (r, w') \<Longrightarrow> (\<exists>p. r = (Some p, True, None)) \<or> (\<exists>m. r = (None, False, Some m))"
  unfolding fetch_try_working Let_def
  by (auto split: sum.splits response.splits if_splits prod.splits)

text \<open>Over a database that stores every row, \<^verbatim>\<open>fetch_pokemon\<close> returns a triple: an
  entity with the success flag and no message, or no entity and a message.\<close>

lemma fetch_pokemon_returns_when_rows_are_stored:
  "\<exists>entity ok err w'. fetch_pokemon rt pname w = Inr ((entity, ok, err), w')
      \<and> (ok = (entity \<noteq> None)) \<and> (ok = (err = None))"
proof (cases "fetch_try rt (py_strip (py_lower pname)) w")
  case (Inl x)
  then show ?thesis
    by (cases x) (simp add: fetch_pokemon_working fetch_except_working Let_def)
next
  case (Inr y)
  obtain r w' where y: "y = (r, w')" by (cases y)
  from fetch_try_result [of rt _ w r w'] Inr y
  have "(\<exists>p. r = (Some p, True, None)) \<or> (\<exists>m. r = (None, False, Some m))" by simp
  with Inr y show ?thesis
    by (auto simp: fetch_pokemon_working Let_def)
qed





subsection \<open>What a call leaves untouched, and the provider calls it makes\<close>

lemma save_json_frame:
  "pokemons (save_json_to_file rt d n w) = pokemons w"
  "next_pk (save_json_to_file rt d n w) = next_pk w"
  "api_requests (save_json_to_file rt d n w) = api_requests w"
  "provider_calls (save_json_to_file rt d n w) = provider_calls w"
  by (simp_all add: save_json_to_file_def logger_def Let_def split: sum.splits prod.splits option.splits)

lemma fetch_try_calls:
  "provider_calls (final_world (fetch_try rt n w)) = provider_calls w @ [BASE_URL @ n @ (py ''/'')]"
  unfolding fetch_try_working Let_def final_world_def
  by (simp add: logger_def api_request_create_def save_json_frame
      split: sum.splits response.splits prod.splits)

lemma fetch_pokemon_calls:
  "provider_calls (final_world (fetch_pokemon rt pname w)) =
     provider_calls w @ [BASE_URL @ py_strip (py_lower pname) @ (py ''/'')]"
proof (cases "fetch_try rt (py_strip (py_lower pname)) w")
  case (Inl x)
  with fetch_try_calls [of rt "py_strip (py_lower pname)" w] show ?thesis
    by (cases x)
      (simp add: fetch_pokemon_working fetch_except_working Let_def final_world_def log_error_def
        logger_def api_request_create_def)
next
  case (Inr y)
  with fetch_try_calls [of rt "py_strip (py_lower pname)" w] show ?thesis
    by (cases y) (simp add: fetch_pokemon_working Let_def final_world_def)
qed

subsection \<open>The views\<close>

lemma subscript_raises: "subscript v k = Inl e \<Longrightarrow> lookup_error e"
  by (cases v) (auto split: option.splits)

lemma py_in_raises: "py_in k v = Inl e \<Longrightarrow> lookup_error e"
  by (cases v) auto

lemma py_iter_raises: "py_iter v = Inl e \<Longrightarrow> lookup_error e"
  by (cases v) auto

lemma sbind_raises:
  "sbind m f = Inl e \<Longrightarrow> (\<And>e'. m = Inl e' \<Longrightarrow> P e') \<Longrightarrow> (\<And>x e'. f x = Inl e' \<Longrightarrow> P e') \<Longrightarrow> P e"
  by (cases m) auto

lemma type_names_raises: "type_names xs = Inl e \<Longrightarrow> lookup_error e"
proof (induction xs)
  case Nil
  then show ?case by simp
next
  case (Cons x xs)
  then show ?case
    by (auto split: sum.splits elim!: sbind_raises dest: subscript_raises)
qed

lemma ability_names_raises: "ability_names h xs = Inl e \<Longrightarrow> lookup_error e"
proof (induction xs)
  case Nil
  then show ?case by simp
next
  case (Cons x xs)
  then show ?case
    by (auto split: sum.splits if_splits elim!: sbind_raises dest: subscript_raises)
qed

lemma stat_items_raises: "stat_items d xs = Inl e \<Longrightarrow> lookup_error e"
proof (induction xs arbitrary: d)
  case Nil
  then show ?case by simp
next
  case (Cons x xs)
  then show ?case
    by (auto split: sum.splits if_splits elim!: sbind_raises dest: subscript_raises)
qed

lemma float_of_int_raises: "float_of_int n = Inl e \<Longrightarrow> lookup_error e"
  by (auto simp: float_of_int_def Let_def split: prod.splits if_splits)

lemma accessors_raise:
  "height_in_meters p = Inl e \<Longrightarrow> lookup_error e"
  "weight_in_kg p = Inl e \<Longrightarrow> lookup_error e"
  "types p = Inl e \<Longrightarrow> lookup_error e"
  "abilities p = Inl e \<Longrightarrow> lookup_error e"
  "hidden_abilities p = Inl e \<Longrightarrow> lookup_error e"
  "base_stats p = Inl e \<Longrightarrow> lookup_error e"
  unfolding height_in_meters_def weight_in_kg_def types_def abilities_def hidden_abilities_def base_stats_def
  by (auto split: if_splits elim!: sbind_raises
      dest: subscript_raises py_in_raises py_iter_raises type_names_raises ability_names_raises
        stat_items_raises float_of_int_raises)

lemma pokemon_payload_raises: "pokemon_payload p = Inl e \<Longrightarrow> lookup_error e"
  unfolding pokemon_payload_def
  by (auto elim!: sbind_raises dest: accessors_raise)

lemma api_view_fast_path:
  assumes "objects_get_by_name (pokemons w) (py_lower pname) = Inr p"
  shows "final_world (api_view_get rt pname w) = w"
proof (cases "pokemon_payload p")
  case (Inl e)
  from pokemon_payload_raises [OF Inl] have "lookup_error e" .
  with Inl assms show ?thesis
    by (cases e) (simp_all add: api_view_get_working final_world_def)
next
  case (Inr b)
  with assms show ?thesis
    by (simp add: api_view_get_working final_world_def)
qed

lemma api_view_miss:
  assumes "objects_get_by_name (pokemons w) (py_lower pname) = Inl (DoesNotExist m)"
  shows "final_world (api_view_get rt pname w) = final_world (fetch_pokemon rt pname w)"
  using assms
  by (auto simp: api_view_get_working final_world_def split: sum.splits prod.splits option.splits)

lemma form_valid_world:
  "final_world (form_valid rt pname w) = final_world (fetch_pokemon rt pname w)"
  by (auto simp: form_valid_working final_world_def split: sum.splits prod.splits option.splits)

text \<open>
  C10. \<^verbatim>\<open>fetch_pokemon\<close> requests the URL of the normalised name from the provider
  exactly once, whatever the Pokemon table holds: it never consults the table before
  the call. \<^verbatim>\<open>PokemonSearchView.form_valid\<close> does the same on every submission. The
  fast path is in \<^verbatim>\<open>PokemonAPIView.get\<close> only: when its lookup finds the row, the state
  is left as it was (no provider call, nothing written); when the lookup finds no row,
  the provider is called once.
\<close>

theorem provider_called_on_every_fetch:
  "provider_calls (final_world (fetch_pokemon rt pname w)) =
       provider_calls w @ [BASE_URL @ py_strip (py_lower pname) @ (py ''/'')]
   \<and> provider_calls (final_world (form_valid rt pname w)) =
       provider_calls w @ [BASE_URL @ py_strip (py_lower pname) @ (py ''/'')]
   \<and> (\<forall>p. objects_get_by_name (pokemons w) (py_lower pname) = Inr p \<longrightarrow>
          final_world (api_view_get rt pname w) = w)
   \<and> (\<forall>m. objects_get_by_name (pokemons w) (py_lower pname) = Inl (DoesNotExist m) \<longrightarrow>
          provider_calls (final_world (api_view_get rt pname w)) =
            provider_calls w @ [BASE_URL @ py_strip (py_lower pname) @ (py ''/'')])"
  by (simp add: fetch_pokemon_calls form_valid_world api_view_fast_path api_view_miss)

lemma ditto_cached: "objects_get_by_name (pokemons ditto_world) (py_lower (py ''ditto'')) = Inr ditto_entity"
  by code_simp

lemma normalise_ditto: "py_strip (py_lower (py ''ditto'')) = (py ''ditto'')"
  by code_simp

theorem provider_called_on_every_fetch_witness:
  "objects_get_by_name (pokemons ditto_world) (py_lower (py ''ditto'')) = Inr ditto_entity
   \<and> provider_calls (final_world (fetch_pokemon (example_runtime (answers 200 ditto_json) True) (py ''ditto'') ditto_world)) =
       [(py ''https://pokeapi.co/api/v2/pokemon/ditto/'')]
   \<and> provider_calls (final_world (form_valid (example_runtime (answers 200 ditto_json) True) (py ''ditto'') ditto_world)) =
       [(py ''https://pokeapi.co/api/v2/pokemon/ditto/'')]
   \<and> final_world (api_view_get (example_runtime (answers 200 ditto_json) True) (py ''ditto'') ditto_world) = ditto_world"
  using provider_called_on_every_fetch [of "example_runtime (answers 200 ditto_json) True" "(py ''ditto'')" ditto_world]
  by (simp add: ditto_cached normalise_ditto BASE_URL_def) (simp add: ditto_world_def empty_world_def)

subsection \<open>The auxiliary file copy\<close>

lemma prep_int_null_storage_independent:
  "prep_int_null (rt\<lparr>storage_save := sv\<rparr>) v = prep_int_null rt v"
  by (simp add: prep_int_null_def)

lemma prep_row_storage_independent:
  "prep_row (rt\<lparr>storage_save := sv\<rparr>) key i d = prep_row rt key i d"
  by (simp add: prep_row_def prep_int_null_storage_independent)

lemma update_or_create_storage_independent:
  "update_or_create (rt\<lparr>storage_save := sv\<rparr>) tbl key v d = update_or_create rt tbl key v d"
  by (simp add: update_or_create_def prep_row_storage_independent cong: list.case_cong)

lemma upsert_storage_independent:
  "upsert_from_payload (rt\<lparr>storage_save := sv\<rparr>) data tbl key = upsert_from_payload rt data tbl key"
  by (simp add: upsert_from_payload_def update_or_create_storage_independent)

lemma fetch_try_storage_independent:
  "visible (fetch_try (rt\<lparr>storage_save := sv\<rparr>) n w) = visible (fetch_try rt n w)"
  unfolding fetch_try_working Let_def visible_def outcome_def final_world_def
  by (simp add: upsert_storage_independent save_json_frame logger_def api_request_create_def
      split: sum.splits response.splits prod.splits)

lemma fetch_pokemon_visible:
  "visible (fetch_try rt' n w) = visible (fetch_try rt n w) \<Longrightarrow>
   n = py_strip (py_lower pname) \<Longrightarrow>
   visible (fetch_pokemon rt' pname w) = visible (fetch_pokemon rt pname w)"
  unfolding fetch_pokemon_working fetch_except_working Let_def visible_def outcome_def final_world_def
  by (auto simp: log_error_def logger_def api_request_create_def split: sum.splits prod.splits)

lemma fetch_pokemon_storage_independent:
  "visible (fetch_pokemon (rt\<lparr>storage_save := sv\<rparr>) pname w) = visible (fetch_pokemon rt pname w)"
  by (rule fetch_pokemon_visible [OF fetch_try_storage_independent refl])

lemma fetch_pokemon_after_failed_save:
  assumes reply: "http_get rt (BASE_URL @ py_strip (py_lower pname) @ (py ''/'')) = Inr (Response 200 (Inr data))"
      and ident: "subscript data (py ''id'') = Inr i"
      and fail: "storage_save rt (files w)
                   ((py ''pokemon_data/'') @ py_strip (py_lower pname) @ (py ''_'') @ py_str rt i @ (py ''.json''))
                   (json_dumps rt data) = (fs, Some e)"
  shows "(ERROR, (py ''Failed to save JSON file: '') @ exn_str e) \<in> set (app_log (final_world (fetch_pokemon rt pname w)))"
    and "upsert_from_payload rt data (pokemons w) (next_pk w) = Inr (p, created, tbl, key) \<Longrightarrow>
          outcome (fetch_pokemon rt pname w) = Inr (Some p, True, None)
          \<and> pokemons (final_world (fetch_pokemon rt pname w)) = tbl"
  using assms
  unfolding fetch_pokemon_working fetch_try_working fetch_except_working Let_def outcome_def final_world_def
  by (auto simp: save_json_to_file_def log_error_def logger_def api_request_create_def
      split: sum.splits prod.splits)


text \<open>
  C9. Let the provider answer 200 with a document that has an \<^verbatim>\<open>id\<close>, and let the storage
  raise while saving the copy. Then the failure is logged at level ERROR; the outcome,
  the Pokemon table, the Request Log and the provider calls are what they are under any
  other storage behaviour \<open>sv\<close>; and whenever the upsert of the document succeeds,
  \<^verbatim>\<open>fetch_pokemon\<close> returns the upserted entity with success true and the table holds it.
\<close>

theorem auxiliary_copy_failure_is_harmless:
  assumes reply: "http_get rt (BASE_URL @ py_strip (py_lower pname) @ (py ''/'')) = Inr (Response 200 (Inr data))"
      and ident: "subscript data (py ''id'') = Inr i"
      and fail: "storage_save rt (files w)
                   ((py ''pokemon_data/'') @ py_strip (py_lower pname) @ (py ''_'') @ py_str rt i @ (py ''.json''))
                   (json_dumps rt data) = (fs, Some e)"
  shows "(ERROR, (py ''Failed to save JSON file: '') @ exn_str e) \<in> set (app_log (final_world (fetch_pokemon rt pname w)))
       \<and> visible (fetch_pokemon (rt\<lparr>storage_save := sv\<rparr>) pname w) = visible (fetch_pokemon rt pname w)
       \<and> (\<forall>p created tbl key.
            upsert_from_payload rt data (pokemons w) (next_pk w) = Inr (p, created, tbl, key) \<longrightarrow>
              outcome (fetch_pokemon rt pname w) = Inr (Some p, True, None)
              \<and> pokemons (final_world (fetch_pokemon rt pname w)) = tbl)"
  using fetch_pokemon_after_failed_save [OF assms] fetch_pokemon_storage_independent
  by blast

lemma ditto_id: "subscript ditto_json (py ''id'') = Inr (JInt 132)"
  by code_simp

lemma ditto_upsert:
  "upsert_from_payload (example_runtime (answers 200 ditto_json) False) ditto_json [] 1 =
     Inr (ditto_entity, True, [ditto_entity], 2)"
  by code_simp

theorem auxiliary_copy_failure_is_harmless_witness:
  "(ERROR, (py ''Failed to save JSON file: [Errno 28] No space left on device''))
      \<in> set (app_log (final_world (fetch_pokemon (example_runtime (answers 200 ditto_json) False) (py ''ditto'') empty_world)))
   \<and> visible (fetch_pokemon (example_runtime (answers 200 ditto_json) True) (py ''ditto'') empty_world) =
       visible (fetch_pokemon (example_runtime (answers 200 ditto_json) False) (py ''ditto'') empty_world)
   \<and> outcome (fetch_pokemon (example_runtime (answers 200 ditto_json) False) (py ''ditto'') empty_world) =
       Inr (Some ditto_entity, True, None)
   \<and> pokemons (final_world (fetch_pokemon (example_runtime (answers 200 ditto_json) False) (py ''ditto'') empty_world)) =
       [ditto_entity]"
proof -
  let ?rt = "example_runtime (answers 200 ditto_json) False"
  have reply: "http_get ?rt (BASE_URL @ py_strip (py_lower (py ''ditto'')) @ (py ''/'')) = Inr (Response 200 (Inr ditto_json))"
    by (simp add: example_runtime_def answers_def)
  have fail: "storage_save ?rt (files empty_world)
                ((py ''pokemon_data/'') @ py_strip (py_lower (py ''ditto'')) @ (py ''_'') @ py_str ?rt (JInt 132) @ (py ''.json''))
                (json_dumps ?rt ditto_json) = ([], Some (OtherException (py ''[Errno 28] No space left on device'')))"
    by (simp add: example_runtime_def empty_world_def)
  have same: "?rt\<lparr>storage_save := storage_save (example_runtime (answers 200 ditto_json) True)\<rparr> =
                example_runtime (answers 200 ditto_json) True"
    by (simp add: example_runtime_def)
  have ups: "upsert_from_payload ?rt ditto_json (pokemons empty_world) (next_pk empty_world) =
               Inr (ditto_entity, True, [ditto_entity], 2)"
    using ditto_upsert by (simp add: empty_world_def)
  note main = auxiliary_copy_failure_is_harmless [OF reply ditto_id fail,
      of "storage_save (example_runtime (answers 200 ditto_json) True)"]
  from main ups
  have "outcome (fetch_pokemon ?rt (py ''ditto'') empty_world) = Inr (Some ditto_entity, True, None)
        \<and> pokemons (final_world (fetch_pokemon ?rt (py ''ditto'') empty_world)) = [ditto_entity]"
    by blast
  with main show ?thesis
    by (simp add: same)
qed

subsection \<open>The upsert\<close>

lemma sbind_Inr: "sbind m f = Inr y \<Longrightarrow> \<exists>x. m = Inr x \<and> f x = Inr y"
  by (cases m) auto

lemma prep_row_fields:
  assumes "prep_row rt key i d = Inr row"
  shows "pk row = key \<and> pokemon_id row = i \<and> prep_char rt (d_name d) = Inr (name row)
       \<and> prep_int rt (d_height d) = Inr (height row) \<and> prep_int rt (d_weight d) = Inr (weight row)
       \<and> prep_int_null rt (d_base_experience d) = Inr (base_experience row)
       \<and> raw_data row = d_raw_data d"
  using assms unfolding prep_row_def
  by (auto dest!: sbind_Inr)

lemma update_or_create_cases:
  assumes "update_or_create rt tbl key v d = Inr (row, created, tbl', key')"
  shows "\<exists>i. prep_int rt v = Inr i \<and>
           ((created \<and> filter (\<lambda>p. pokemon_id p = i) tbl = [] \<and> prep_row rt key i d = Inr row
               \<and> name row \<notin> set (map name tbl) \<and> tbl' = tbl @ [row] \<and> key' = Suc key)
          \<or> (\<not> created \<and> (\<exists>old. filter (\<lambda>p. pokemon_id p = i) tbl = [old] \<and> prep_row rt (pk old) i d = Inr row)
               \<and> name row \<notin> set (map name (filter (\<lambda>p. pokemon_id p \<noteq> i) tbl))
               \<and> tbl' = map (\<lambda>p. if pokemon_id p = i then row else p) tbl \<and> key' = key))"
proof -
  from assms obtain i where i: "prep_int rt v = Inr i"
    unfolding update_or_create_def by (auto dest!: sbind_Inr)
  show ?thesis
  proof (cases "filter (\<lambda>p. pokemon_id p = i) tbl")
    case Nil
    with assms i show ?thesis
      unfolding update_or_create_def
      by (auto dest!: sbind_Inr split: if_splits)
  next
    case (Cons old rest)
    with assms i show ?thesis
      unfolding update_or_create_def
      by (cases rest) (auto dest!: sbind_Inr split: if_splits)
  qed
qed

lemma filter_replace:
  "pokemon_id row = i \<Longrightarrow>
   filter (\<lambda>p. pokemon_id p = i) (map (\<lambda>p. if pokemon_id p = i then row else p) tbl) =
     map (\<lambda>p. row) (filter (\<lambda>p. pokemon_id p = i) tbl)"
  by (induction tbl) auto

lemma update_or_create_one_row:
  assumes "update_or_create rt tbl key v d = Inr (row, created, tbl', key')"
  shows "filter (\<lambda>p. pokemon_id p = pokemon_id row) tbl' = [row] \<and> prep_int rt v = Inr (pokemon_id row)"
proof -
  from update_or_create_cases [OF assms] obtain i where i: "prep_int rt v = Inr i"
    and c: "(created \<and> filter (\<lambda>p. pokemon_id p = i) tbl = [] \<and> prep_row rt key i d = Inr row
               \<and> name row \<notin> set (map name tbl) \<and> tbl' = tbl @ [row] \<and> key' = Suc key)
          \<or> (\<not> created \<and> (\<exists>old. filter (\<lambda>p. pokemon_id p = i) tbl = [old] \<and> prep_row rt (pk old) i d = Inr row)
               \<and> name row \<notin> set (map name (filter (\<lambda>p. pokemon_id p \<noteq> i) tbl))
               \<and> tbl' = map (\<lambda>p. if pokemon_id p = i then row else p) tbl \<and> key' = key)"
    by blast
  from c have id: "pokemon_id row = i"
    by (auto dest: prep_row_fields)
  from c show ?thesis
  proof
    assume "created \<and> filter (\<lambda>p. pokemon_id p = i) tbl = [] \<and> prep_row rt key i d = Inr row
               \<and> name row \<notin> set (map name tbl) \<and> tbl' = tbl @ [row] \<and> key' = Suc key"
    with id i show ?thesis by simp
  next
    assume u: "\<not> created \<and> (\<exists>old. filter (\<lambda>p. pokemon_id p = i) tbl = [old] \<and> prep_row rt (pk old) i d = Inr row)
               \<and> name row \<notin> set (map name (filter (\<lambda>p. pokemon_id p \<noteq> i) tbl))
               \<and> tbl' = map (\<lambda>p. if pokemon_id p = i then row else p) tbl \<and> key' = key"
    then obtain old where "filter (\<lambda>p. pokemon_id p = i) tbl = [old]" by blast
    with u id i filter_replace [of row i tbl] show ?thesis by simp
  qed
qed

subsection \<open>The stored name\<close>

lemma fetch_pokemon_success:
  assumes "outcome (fetch_pokemon rt pname w) = Inr (Some p, ok, err)"
  shows "\<exists>data created tbl key.
           http_get rt (BASE_URL @ py_strip (py_lower pname) @ (py ''/'')) = Inr (Response 200 (Inr data))
         \<and> upsert_from_payload rt data (pokemons w) (next_pk w) = Inr (p, created, tbl, key)
         \<and> pokemons (final_world (fetch_pokemon rt pname w)) = tbl
         \<and> next_pk (final_world (fetch_pokemon rt pname w)) = key"
  using assms
  unfolding fetch_pokemon_working fetch_try_working fetch_except_working Let_def outcome_def final_world_def
  by (auto simp: save_json_frame logger_def api_request_create_def
      split: sum.splits response.splits prod.splits if_splits)

lemma upsert_from_payload_fields:
  assumes "upsert_from_payload rt data tbl key = Inr res"
  shows "\<exists>i n h wt be.
           subscript data (py ''id'') = Inr i \<and> subscript data (py ''name'') = Inr n
         \<and> subscript data (py ''height'') = Inr h \<and> subscript data (py ''weight'') = Inr wt
         \<and> dict_get data (py ''base_experience'') = Inr be
         \<and> update_or_create rt tbl key i
              \<lparr>d_name = n, d_height = h, d_weight = wt, d_base_experience = be, d_raw_data = data\<rparr> = Inr res"
  using assms unfolding upsert_from_payload_def
  by (auto dest!: sbind_Inr)

lemma distinct_names_replace:
  "distinct (map name tbl) \<Longrightarrow>
   length (filter (\<lambda>p. pokemon_id p = i) tbl) \<le> 1 \<Longrightarrow>
   name row \<notin> set (map name (filter (\<lambda>p. pokemon_id p \<noteq> i) tbl)) \<Longrightarrow>
   distinct (map name (map (\<lambda>p. if pokemon_id p = i then row else p) tbl))"
proof (induction tbl)
  case Nil
  then show ?case by simp
next
  case (Cons x xs)
  show ?case
  proof (cases "pokemon_id x = i")
    case True
    with Cons.prems have none: "\<forall>p \<in> set xs. pokemon_id p \<noteq> i"
      by (auto simp: filter_empty_conv)
    then have same: "map (\<lambda>p. if pokemon_id p = i then row else p) xs = xs"
      by (induction xs) auto
    from none have "filter (\<lambda>p. pokemon_id p \<noteq> i) xs = xs"
      by (induction xs) auto
    with Cons.prems True same show ?thesis by simp
  next
    case False
    from Cons.prems False have row: "name row \<noteq> name x"
      and rest: "name row \<notin> set (map name (filter (\<lambda>p. pokemon_id p \<noteq> i) xs))"
      and fresh: "name x \<notin> set (map name xs)" and dist: "distinct (map name xs)"
      and len: "length (filter (\<lambda>p. pokemon_id p = i) xs) \<le> 1"
      by auto
    from row fresh have "name x \<notin> set (map name (map (\<lambda>p. if pokemon_id p = i then row else p) xs))"
      by (induction xs) auto
    with Cons.IH [OF dist len rest] False show ?thesis by simp
  qed
qed

lemma update_or_create_names:
  assumes "update_or_create rt tbl key v d = Inr (row, created, tbl', key')"
      and "distinct (map name tbl)"
  shows "distinct (map name tbl') \<and> row \<in> set tbl'"
proof -
  from update_or_create_one_row [OF assms(1)] have "row \<in> set (filter (\<lambda>p. pokemon_id p = pokemon_id row) tbl')"
    by simp
  then have mem: "row \<in> set tbl'" by simp
  from update_or_create_cases [OF assms(1)] assms(2) have "distinct (map name tbl')"
    by (auto intro!: distinct_names_replace)
  with mem show ?thesis by simp
qed

text \<open>
  C5, as amended. After a successful fetch into a table whose names are distinct, the
  stored name is the provider's \<^verbatim>\<open>name\<close> value as the character field converts it (the
  service does not lowercase it), \<^verbatim>\<open>raw_data\<close> is the provider's document, the row is in
  the table, and the names of the table are still distinct.
\<close>

theorem stored_name_is_the_providers:
  assumes "distinct (map name (pokemons w))"
      and "outcome (fetch_pokemon rt pname w) = Inr (Some p, ok, err)"
  shows "\<exists>data n.
           http_get rt (BASE_URL @ py_strip (py_lower pname) @ (py ''/'')) = Inr (Response 200 (Inr data))
         \<and> subscript data (py ''name'') = Inr n \<and> prep_char rt n = Inr (name p) \<and> raw_data p = data
         \<and> p \<in> set (pokemons (final_world (fetch_pokemon rt pname w)))
         \<and> distinct (map name (pokemons (final_world (fetch_pokemon rt pname w))))"
proof -
  from fetch_pokemon_success [OF assms(2)] obtain data created tbl key where
    reply: "http_get rt (BASE_URL @ py_strip (py_lower pname) @ (py ''/'')) = Inr (Response 200 (Inr data))"
    and ups: "upsert_from_payload rt data (pokemons w) (next_pk w) = Inr (p, created, tbl, key)"
    and tbl: "pokemons (final_world (fetch_pokemon rt pname w)) = tbl"
    by blast
  from upsert_from_payload_fields [OF ups] obtain i n h wt be where
    n: "subscript data (py ''name'') = Inr n"
    and uoc: "update_or_create rt (pokemons w) (next_pk w) i
              \<lparr>d_name = n, d_height = h, d_weight = wt, d_base_experience = be, d_raw_data = data\<rparr>
               = Inr (p, created, tbl, key)"
    by blast
  from update_or_create_cases [OF uoc] have "prep_char rt n = Inr (name p) \<and> raw_data p = data"
    by (auto dest: prep_row_fields)
  with reply n tbl update_or_create_names [OF uoc assms(1)] show ?thesis
    by blast
qed

text \<open>
  C5, as stated, fails: when the provider's document says \<^verbatim>\<open>"name": "Ditto"\<close>, the fetch
  succeeds and the stored name is \<^verbatim>\<open>Ditto\<close>, which is not lowercase.
\<close>

theorem stored_name_keeps_provider_case:
  "outcome (fetch_pokemon (example_runtime (answers 200 capital_json) True) (py ''ditto'') empty_world) =
     Inr (Some capital_entity, True, None)
   \<and> pokemons (final_world (fetch_pokemon (example_runtime (answers 200 capital_json) True) (py ''ditto'') empty_world)) =
     [capital_entity]
   \<and> name capital_entity = (py ''Ditto'')
   \<and> py_lower (name capital_entity) \<noteq> name capital_entity"
  by code_simp

theorem stored_name_is_the_providers_witness:
  "subscript capital_json (py ''name'') = Inr (JStr (py ''Ditto''))
   \<and> prep_char (example_runtime (answers 200 capital_json) True) (JStr (py ''Ditto'')) = Inr (name capital_entity)
   \<and> raw_data capital_entity = capital_json
   \<and> capital_entity \<in> set (pokemons (final_world
        (fetch_pokemon (example_runtime (answers 200 capital_json) True) (py ''ditto'') empty_world)))
   \<and> distinct (map name (pokemons (final_world
        (fetch_pokemon (example_runtime (answers 200 capital_json) True) (py ''ditto'') empty_world))))"
proof -
  have d: "distinct (map name (pokemons empty_world))"
    by (simp add: empty_world_def)
  have o: "outcome (fetch_pokemon (example_runtime (answers 200 capital_json) True) (py ''ditto'') empty_world) =
             Inr (Some capital_entity, True, None)"
    by code_simp
  have s: "subscript capital_json (py ''name'') = Inr (JStr (py ''Ditto''))"
    by code_simp
  from stored_name_is_the_providers [OF d o] s show ?thesis
    by (auto simp: example_runtime_def answers_def)
qed

subsection \<open>The Request Log\<close>


lemma fetch_pokemon_table:
  "pokemons (final_world (fetch_pokemon rt pname w)) =
     (case http_get rt (BASE_URL @ py_strip (py_lower pname) @ (py ''/'')) of
        Inl e \<Rightarrow> pokemons w
      | Inr (Response status_code body) \<Rightarrow>
          if status_code \<noteq> 200 then pokemons w
          else (case body of
                  Inl e \<Rightarrow> pokemons w
                | Inr data \<Rightarrow>
                    (case upsert_from_payload rt data (pokemons w) (next_pk w) of
                       Inl e \<Rightarrow> pokemons w
                     | Inr (p, created, tbl, key) \<Rightarrow> tbl)))"
  unfolding fetch_pokemon_working fetch_try_working fetch_except_working Let_def final_world_def
  by (auto simp: save_json_frame logger_def api_request_create_def log_error_def
      split: sum.splits response.splits prod.splits)



subsection \<open>The derived properties\<close>

lemma stored_payload_is_dict:
  assumes "outcome (fetch_pokemon rt pname w) = Inr (Some p, ok, err)"
  shows "is_dict (raw_data p)"
proof -
  from fetch_pokemon_success [OF assms] obtain data created tbl key where
    ups: "upsert_from_payload rt data (pokemons w) (next_pk w) = Inr (p, created, tbl, key)"
    by blast
  from upsert_from_payload_fields [OF ups] obtain i n h wt be where
    i: "subscript data (py ''id'') = Inr i"
    and uoc: "update_or_create rt (pokemons w) (next_pk w) i
              \<lparr>d_name = n, d_height = h, d_weight = wt, d_base_experience = be, d_raw_data = data\<rparr>
               = Inr (p, created, tbl, key)"
    by blast
  from update_or_create_cases [OF uoc] have "raw_data p = data"
    by (auto dest: prep_row_fields)
  moreover from i have "is_dict data"
    by (cases data) auto
  ultimately show ?thesis by simp
qed

subsection \<open>The example of the specification\<close>

text \<open>
  C8, as amended. Resolving \<^verbatim>\<open>ditto\<close> against a provider that answers with the example's
  document yields the entity with \<^verbatim>\<open>pokemon_id\<close> 132, \<^verbatim>\<open>height_in_meters\<close> the double
  written \<^verbatim>\<open>0.30000000000000004\<close>, \<^verbatim>\<open>weight_in_kg\<close> the double \<^verbatim>\<open>4.0\<close>, \<^verbatim>\<open>abilities\<close> the list
  of \<^verbatim>\<open>limber\<close>, and no hidden abilities.
\<close>

theorem ditto_example:
  "outcome (fetch_pokemon (example_runtime (answers 200 ditto_json) True) (py ''ditto'') empty_world) =
     Inr (Some ditto_entity, True, None)
   \<and> pokemon_id ditto_entity = 132
   \<and> height_in_meters ditto_entity = Inr (float_literal 30000000000000004 100000000000000000)
   \<and> weight_in_kg ditto_entity = Inr (float_literal 4 1)
   \<and> abilities ditto_entity = Inr [JStr (py ''limber'')]
   \<and> hidden_abilities ditto_entity = Inr []"
  by code_simp

text \<open>
  C8, as stated, fails in one value: \<^verbatim>\<open>3 * 0.1\<close> is the double with mantissa
  5404319552844596 and exponent -54, and the double that \<^verbatim>\<open>0.3\<close> denotes has mantissa
  5404319552844595: the exact product lies half way between two doubles and is rounded
  to the even mantissa.
\<close>

theorem ditto_height_is_not_three_tenths:
  "outcome (fetch_pokemon (example_runtime (answers 200 ditto_json) True) (py ''ditto'') empty_world) =
     Inr (Some ditto_entity, True, None)
   \<and> height_in_meters ditto_entity = Inr (5404319552844596, - 54)
   \<and> float_literal 3 10 = (5404319552844595, - 54)
   \<and> height_in_meters ditto_entity \<noteq> Inr (float_literal 3 10)"
  by code_simp

subsection \<open>The lookup of the JSON endpoint\<close>

text \<open>
  C4 at the name \<^verbatim>\<open>" ditto"\<close> (the URL \<^verbatim>\<open>api/pokemon/%20ditto/\<close>) with \<^verbatim>\<open>ditto\<close> cached: the
  normalised name is \<^verbatim>\<open>ditto\<close> and a lookup by it finds the row, but \<^verbatim>\<open>PokemonAPIView.get\<close>
  looks up the lowercased, untrimmed name, finds nothing, and calls the provider.
\<close>

theorem api_lookup_is_not_trimmed:
  "py_strip (py_lower (py '' ditto'')) = (py ''ditto'')
   \<and> objects_get_by_name (pokemons ditto_world) (py_strip (py_lower (py '' ditto''))) = Inr ditto_entity
   \<and> objects_get_by_name (pokemons ditto_world) (py_lower (py '' ditto'')) =
       Inl (DoesNotExist (py ''Pokemon matching query does not exist.''))
   \<and> provider_calls (final_world
        (api_view_get (example_runtime (answers 200 ditto_json) True) (py '' ditto'') ditto_world)) =
       [(py ''https://pokeapi.co/api/v2/pokemon/ditto/'')]"
  by code_simp

subsection \<open>Exceptions that reach the caller\<close>

lemma fetch_try_db_refused:
  assumes "\<And>r. pokemon_name r = n \<Longrightarrow> db r = Some x"
  shows "\<exists>e w'. fetch_try_db db rt n w = Inl (e, w')"
  unfolding fetch_try_db_def Let_def request_create_def
  by (auto simp: assms split: sum.splits response.splits)

lemma refused_name_escapes:
  assumes "\<And>r. pokemon_name r = py_strip (py_lower pname) \<Longrightarrow> db r = Some x"
  shows "outcome (fetch_pokemon_db db rt pname w) = Inl x"
proof -
  from fetch_try_db_refused [of "py_strip (py_lower pname)" db x rt w, OF assms]
  obtain e w' where "fetch_try_db db rt (py_strip (py_lower pname)) w = Inl (e, w')"
    by blast
  then show ?thesis
    by (simp add: fetch_pokemon_db_def fetch_except_db_def log_error_db_def request_create_def
        Let_def outcome_def assms)
qed

lemma surrogate_name_escapes:
  assumes "utf8_error (py_strip (py_lower pname)) = Some x"
  shows "outcome (fetch_pokemon_db utf8_db rt pname w) = Inl x"
  by (rule refused_name_escapes) (simp add: utf8_db_def assms)

lemma fetch_pokemon_db_raises_only_from_log_error:
  assumes "fetch_pokemon_db db rt pname w = Inl (x, w')"
  shows "\<exists>e w0. fetch_try_db db rt (py_strip (py_lower pname)) w = Inl (e, w0)
           \<and> db \<lparr>pokemon_name = py_strip (py_lower pname), success = False,
                  error_message = error_msg_of (py_strip (py_lower pname)) e,
                  http_status_code = None, response_data = JNull\<rparr> = Some x"
  using assms
  by (auto simp: fetch_pokemon_db_def fetch_except_db_def log_error_db_def request_create_def Let_def
      split: sum.splits prod.splits option.splits)

text \<open>
  C1 at the name \<^verbatim>\<open>'\udcff'\<close>, over the database that takes UTF-8 text. Whether the provider
  answers 404 or the request times out, \<^verbatim>\<open>fetch_pokemon\<close> raises \<^verbatim>\<open>UnicodeEncodeError\<close> to its
  caller: the row of the response cannot be written inside the \<^verbatim>\<open>try\<close>, the handler
  catches that, and the unguarded write of \<^verbatim>\<open>_log_error\<close> in the handler raises again
  (\<open>surrogate_name_escapes\<close> has it for every runtime and state). For the name
  \<^verbatim>\<open>ditto\<close> the same call returns its triple.
\<close>

theorem surrogate_name_raises:
  "outcome (fetch_pokemon_db utf8_db (example_runtime (answers 404 JNull) True) surrogate_name empty_world) =
     Inl (UnicodeEncodeError
       (sq @ py ''utf-8'' @ sq @ py '' codec can'' @ sq @ py ''t encode character '' @ sq @ [92] @
        py ''udcff'' @ sq @ py '' in position 0: surrogates not allowed''))
   \<and> outcome (fetch_pokemon_db utf8_db (example_runtime times_out True) surrogate_name empty_world) =
     Inl (UnicodeEncodeError
       (sq @ py ''utf-8'' @ sq @ py '' codec can'' @ sq @ py ''t encode character '' @ sq @ [92] @
        py ''udcff'' @ sq @ py '' in position 0: surrogates not allowed''))
   \<and> outcome (fetch_pokemon_db utf8_db (example_runtime (answers 404 JNull) True) (py ''ditto'') empty_world) =
     Inr (None, False, Some (py ''Pokemon '' @ sq @ py ''ditto'' @ sq @ py '' not found''))"
  by code_simp

subsection \<open>The derived properties and the guard on the key\<close>

lemma key_not_in:
  assumes "is_container v" and "\<not> has_key v k"
  shows "py_in k v = Inr False"
  using assms by (cases v) auto

lemma in_raises:
  assumes "truthy v" and "\<not> is_container v"
  shows "py_in k v = Inl (not_iterable v)"
  using assms by (cases v) (auto simp: not_iterable_def)

text \<open>
  C7, as amended. For a payload that is a container (a dictionary, as every payload
  stored by \<^verbatim>\<open>fetch_pokemon\<close> is by \<open>stored_payload_is_dict\<close>, a list or a string) or that
  is false in Python's sense (\<^verbatim>\<open>None\<close>, \<^verbatim>\<open>False\<close>, zero, empty), each derived accessor
  returns the empty list, and \<^verbatim>\<open>base_stats\<close> the empty dictionary, without raising, when its
  key is not in the payload. For a payload that is true in Python's sense and no
  container (a number other than zero, \<^verbatim>\<open>True\<close>) every accessor raises the TypeError of
  \<^verbatim>\<open>key in value\<close>.
\<close>

theorem derived_fields_of_absent_key:
  "((is_container (raw_data p) \<or> \<not> truthy (raw_data p)) \<and> \<not> has_key (raw_data p) (py ''types'')
       \<longrightarrow> types p = Inr [])
   \<and> ((is_container (raw_data p) \<or> \<not> truthy (raw_data p)) \<and> \<not> has_key (raw_data p) (py ''abilities'')
       \<longrightarrow> abilities p = Inr [] \<and> hidden_abilities p = Inr [])
   \<and> ((is_container (raw_data p) \<or> \<not> truthy (raw_data p)) \<and> \<not> has_key (raw_data p) (py ''stats'')
       \<longrightarrow> base_stats p = Inr [])
   \<and> (truthy (raw_data p) \<and> \<not> is_container (raw_data p)
       \<longrightarrow> types p = Inl (not_iterable (raw_data p)) \<and> abilities p = Inl (not_iterable (raw_data p))
         \<and> hidden_abilities p = Inl (not_iterable (raw_data p))
         \<and> base_stats p = Inl (not_iterable (raw_data p)))"
  using key_not_in [of "raw_data p"] in_raises [of "raw_data p"]
  by (auto simp: types_def abilities_def hidden_abilities_def base_stats_def)

lemma payload_examples:
  "is_container (raw_data ditto_entity)" "\<not> has_key (raw_data ditto_entity) (py ''types'')"
  "\<not> has_key (raw_data ditto_entity) (py ''stats'')"
  "is_container (raw_data capital_entity)" "\<not> has_key (raw_data capital_entity) (py ''abilities'')"
  "is_container (raw_data list_entity)" "\<not> has_key (raw_data list_entity) (py ''types'')"
  "is_container (raw_data text_entity)" "\<not> has_key (raw_data text_entity) (py ''stats'')"
  "truthy (raw_data number_entity)" "\<not> is_container (raw_data number_entity)"
  by code_simp+

theorem derived_fields_of_absent_key_witness:
  "types ditto_entity = Inr [] \<and> base_stats ditto_entity = Inr []
   \<and> abilities capital_entity = Inr [] \<and> hidden_abilities capital_entity = Inr []
   \<and> types list_entity = Inr []
   \<and> base_stats text_entity = Inr []
   \<and> types number_entity = Inl (not_iterable (JInt 5))
   \<and> base_stats number_entity = Inl (not_iterable (JInt 5))"
  using derived_fields_of_absent_key [of ditto_entity] derived_fields_of_absent_key [of capital_entity]
    derived_fields_of_absent_key [of list_entity] derived_fields_of_absent_key [of text_entity]
    derived_fields_of_absent_key [of number_entity] payload_examples
  by (simp add: number_entity_def)

text \<open>
  C7, as stated, fails: the accessors raise for some payloads. The service stores the
  document below, and \<^verbatim>\<open>types\<close> of the stored row raises KeyError, because the entry under
  \<^verbatim>\<open>types\<close> has no \<^verbatim>\<open>type\<close>. And for the payload \<^verbatim>\<open>5\<close>, in which the key is absent,
  \<^verbatim>\<open>types\<close> raises TypeError instead of returning the empty list.
\<close>

theorem accessors_raise_on_some_payloads:
  "outcome (fetch_pokemon (example_runtime (answers 200 slot_json) True) (py ''bulbasaur'') empty_world) =
     Inr (Some slot_entity, True, None)
   \<and> types slot_entity = Inl (KeyError (py ''type''))
   \<and> \<not> has_key (raw_data number_entity) (py ''types'')
   \<and> types number_entity =
       Inl (TypeError (py ''argument of type '' @ sq @ py ''int'' @ sq @ py '' is not iterable''))"
  by code_simp

subsection \<open>Two upserts of one provider id\<close>

lemma at_most_one_row:
  "distinct (map pokemon_id tbl) \<Longrightarrow> length (filter (\<lambda>p. pokemon_id p = i) tbl) \<le> 1"
proof (induction tbl)
  case Nil
  then show ?case by simp
next
  case (Cons a tbl)
  show ?case
  proof (cases "pokemon_id a = i")
    case True
    from Cons.prems have "pokemon_id a \<notin> set (map pokemon_id tbl)" by simp
    with True have "\<forall>p \<in> set tbl. pokemon_id p \<noteq> i" by (metis image_eqI set_map)
    then have "filter (\<lambda>p. pokemon_id p = i) tbl = []" by (simp add: filter_empty_conv)
    with True show ?thesis by simp
  next
    case False
    with Cons show ?thesis by simp
  qed
qed

lemma others_when_absent:
  "filter (\<lambda>p. pokemon_id p = i) tbl = [] \<Longrightarrow> filter (\<lambda>p. pokemon_id p \<noteq> i) tbl = tbl"
  by (induction tbl) (auto split: if_splits)

lemma others_after_replace:
  "pokemon_id row = i \<Longrightarrow>
   filter (\<lambda>p. pokemon_id p \<noteq> i) (map (\<lambda>p. if pokemon_id p = i then row else p) tbl) =
     filter (\<lambda>p. pokemon_id p \<noteq> i) tbl"
  by (induction tbl) auto

lemma upsert_of_denoted_row:
  assumes d: "denotes rt data r"
      and one: "length (filter (\<lambda>p. pokemon_id p = pokemon_id r) tbl) \<le> 1"
      and free: "name r \<notin> set (map name (filter (\<lambda>p. pokemon_id p \<noteq> pokemon_id r) tbl))"
  shows "\<exists>created tbl' key'.
           upsert_from_payload rt data tbl key =
             Inr (r\<lparr>pk := row_key tbl key (pokemon_id r)\<rparr>, created, tbl', key')
         \<and> filter (\<lambda>p. pokemon_id p = pokemon_id r) tbl' = [r\<lparr>pk := row_key tbl key (pokemon_id r)\<rparr>]
         \<and> filter (\<lambda>p. pokemon_id p \<noteq> pokemon_id r) tbl' = filter (\<lambda>p. pokemon_id p \<noteq> pokemon_id r) tbl
         \<and> length tbl' = (if filter (\<lambda>p. pokemon_id p = pokemon_id r) tbl = [] then Suc (length tbl) else length tbl)"
proof -
  from d obtain v n h wt be where
    v: "subscript data (py ''id'') = Inr v" "prep_int rt v = Inr (pokemon_id r)"
    and n: "subscript data (py ''name'') = Inr n" "prep_char rt n = Inr (name r)"
    and h: "subscript data (py ''height'') = Inr h" "prep_int rt h = Inr (height r)"
    and wt: "subscript data (py ''weight'') = Inr wt" "prep_int rt wt = Inr (weight r)"
    and be: "dict_get data (py ''base_experience'') = Inr be" "prep_int_null rt be = Inr (base_experience r)"
    and raw: "raw_data r = data"
    unfolding denotes_def by (auto dest!: sbind_Inr)
  have row: "\<And>k. prep_row rt k (pokemon_id r)
               \<lparr>d_name = n, d_height = h, d_weight = wt, d_base_experience = be, d_raw_data = data\<rparr>
             = Inr (r\<lparr>pk := k\<rparr>)"
    using n h wt be raw by (simp add: prep_row_def)
  show ?thesis
  proof (cases "filter (\<lambda>p. pokemon_id p = pokemon_id r) tbl")
    case Nil
    with free others_when_absent [OF Nil] have fresh: "name r \<notin> set (map name tbl)" by simp
    from Nil v n h wt be row fresh show ?thesis
      by (auto simp: upsert_from_payload_def update_or_create_def row_key_def others_when_absent)
  next
    case (Cons old rest)
    with one have rest: "rest = []" by simp
    with Cons have f: "filter (\<lambda>p. pokemon_id p = pokemon_id r) tbl = [old]" by simp
    from f v n h wt be row free show ?thesis
      by (auto simp: upsert_from_payload_def update_or_create_def row_key_def filter_replace
          others_after_replace)
  qed
qed


text \<open>
  C2. Let the \<^verbatim>\<open>pokemon_id\<close>s of the table be distinct, and let two calls of
  \<^verbatim>\<open>fetch_pokemon\<close> follow each other, the provider answering each with a well-formed
  document, \<open>data1\<close> of the row \<open>r1\<close> and \<open>data2\<close> of the row \<open>r2\<close>, both of the same
  \<^verbatim>\<open>pokemon_id\<close>, with names that no row of another \<^verbatim>\<open>pokemon_id\<close> has. Then after the
  first call the table holds exactly one row with that \<^verbatim>\<open>pokemon_id\<close>, of the values of
  \<open>r1\<close>; after the second it holds exactly one, of the values of \<open>r2\<close>, under the same
  primary key; the second call added no row; and the rows of every other \<^verbatim>\<open>pokemon_id\<close>
  are as before.
\<close>

theorem later_upsert_overwrites_the_row:
  assumes uniq: "distinct (map pokemon_id (pokemons w))"
      and reply1: "http_get rt1 (BASE_URL @ py_strip (py_lower pname1) @ py ''/'') = Inr (Response 200 (Inr data1))"
      and doc1: "denotes rt1 data1 r1"
      and reply2: "http_get rt2 (BASE_URL @ py_strip (py_lower pname2) @ py ''/'') = Inr (Response 200 (Inr data2))"
      and doc2: "denotes rt2 data2 r2"
      and same: "pokemon_id r2 = pokemon_id r1"
      and free1: "name r1 \<notin> set (map name (filter (\<lambda>p. pokemon_id p \<noteq> pokemon_id r1) (pokemons w)))"
      and free2: "name r2 \<notin> set (map name (filter (\<lambda>p. pokemon_id p \<noteq> pokemon_id r1) (pokemons w)))"
  shows "let i = pokemon_id r1;
             w1 = final_world (fetch_pokemon rt1 pname1 w);
             w2 = final_world (fetch_pokemon rt2 pname2 w1);
             k = row_key (pokemons w) (next_pk w) i
         in filter (\<lambda>p. pokemon_id p = i) (pokemons w1) = [r1\<lparr>pk := k\<rparr>]
          \<and> filter (\<lambda>p. pokemon_id p = i) (pokemons w2) = [r2\<lparr>pk := k\<rparr>]
          \<and> length (pokemons w2) = length (pokemons w1)
          \<and> filter (\<lambda>p. pokemon_id p \<noteq> i) (pokemons w2) = filter (\<lambda>p. pokemon_id p \<noteq> i) (pokemons w)"
proof -
  let ?i = "pokemon_id r1"
  let ?w1 = "final_world (fetch_pokemon rt1 pname1 w)"
  let ?w2 = "final_world (fetch_pokemon rt2 pname2 ?w1)"
  let ?k = "row_key (pokemons w) (next_pk w) ?i"
  from upsert_of_denoted_row [OF doc1 at_most_one_row [OF uniq] free1, of "next_pk w"]
  obtain c1 tbl1 key1 where
    u1: "upsert_from_payload rt1 data1 (pokemons w) (next_pk w) = Inr (r1\<lparr>pk := ?k\<rparr>, c1, tbl1, key1)"
    and f1: "filter (\<lambda>p. pokemon_id p = ?i) tbl1 = [r1\<lparr>pk := ?k\<rparr>]"
    and o1: "filter (\<lambda>p. pokemon_id p \<noteq> ?i) tbl1 = filter (\<lambda>p. pokemon_id p \<noteq> ?i) (pokemons w)"
    by blast
  have t1: "pokemons ?w1 = tbl1"
    by (simp add: fetch_pokemon_table reply1 u1)
  from f1 same have one2: "length (filter (\<lambda>p. pokemon_id p = pokemon_id r2) tbl1) \<le> 1"
    by simp
  from free2 o1 same
  have free2': "name r2 \<notin> set (map name (filter (\<lambda>p. pokemon_id p \<noteq> pokemon_id r2) tbl1))"
    by simp
  from upsert_of_denoted_row [OF doc2 one2 free2', of "next_pk ?w1"]
  obtain c2 tbl2 key2 where
    u2: "upsert_from_payload rt2 data2 tbl1 (next_pk ?w1) =
           Inr (r2\<lparr>pk := row_key tbl1 (next_pk ?w1) (pokemon_id r2)\<rparr>, c2, tbl2, key2)"
    and f2: "filter (\<lambda>p. pokemon_id p = pokemon_id r2) tbl2 = [r2\<lparr>pk := row_key tbl1 (next_pk ?w1) (pokemon_id r2)\<rparr>]"
    and o2: "filter (\<lambda>p. pokemon_id p \<noteq> pokemon_id r2) tbl2 = filter (\<lambda>p. pokemon_id p \<noteq> pokemon_id r2) tbl1"
    and l2: "length tbl2 = (if filter (\<lambda>p. pokemon_id p = pokemon_id r2) tbl1 = [] then Suc (length tbl1) else length tbl1)"
    by blast
  from f1 same have k2: "row_key tbl1 (next_pk ?w1) (pokemon_id r2) = ?k"
    by (simp add: row_key_def)
  have "pokemons ?w2 =
          (case upsert_from_payload rt2 data2 (pokemons ?w1) (next_pk ?w1) of
             Inl e \<Rightarrow> pokemons ?w1
           | Inr (p, created, tbl, key) \<Rightarrow> tbl)"
    using fetch_pokemon_table [of rt2 pname2 ?w1] reply2 by simp
  with u2 t1 have t2: "pokemons ?w2 = tbl2"
    by simp
  from f1 f2 o1 o2 l2 k2 same t1 t2 show ?thesis
    by (simp add: Let_def)
qed

lemma two_fetches:
  "pokemons (final_world (fetch_pokemon (example_runtime (answers 200 ditto_json) True) (py ''ditto'') bulbasaur_world)) =
     [slot_entity, ditto_entity\<lparr>pk := 2\<rparr>]"
  "pokemons (final_world (fetch_pokemon (example_runtime (answers 200 grown_json) True) (py ''Ditto'')
      (final_world (fetch_pokemon (example_runtime (answers 200 ditto_json) True) (py ''ditto'') bulbasaur_world)))) =
     [slot_entity, grown_entity\<lparr>pk := 2\<rparr>]"
  by code_simp+

lemma two_documents:
  "denotes (example_runtime (answers 200 ditto_json) True) ditto_json ditto_entity"
  "denotes (example_runtime (answers 200 grown_json) True) grown_json grown_entity"
  "pokemon_id grown_entity = pokemon_id ditto_entity"
  "distinct (map pokemon_id (pokemons bulbasaur_world))"
  "name ditto_entity \<notin> set (map name (filter (\<lambda>p. pokemon_id p \<noteq> pokemon_id ditto_entity) (pokemons bulbasaur_world)))"
  "name grown_entity \<notin> set (map name (filter (\<lambda>p. pokemon_id p \<noteq> pokemon_id ditto_entity) (pokemons bulbasaur_world)))"
  "row_key (pokemons bulbasaur_world) (next_pk bulbasaur_world) (pokemon_id ditto_entity) = 2"
  "pokemon_id ditto_entity = 132"
  "row_key (pokemons bulbasaur_world) (next_pk bulbasaur_world) 132 = 2"
  by code_simp+

theorem later_upsert_overwrites_the_row_witness:
  "pokemons bulbasaur_world = [slot_entity]
   \<and> pokemons (final_world (fetch_pokemon (example_runtime (answers 200 ditto_json) True) (py ''ditto'') bulbasaur_world)) =
       [slot_entity, ditto_entity\<lparr>pk := 2\<rparr>]
   \<and> pokemons (final_world (fetch_pokemon (example_runtime (answers 200 grown_json) True) (py ''Ditto'')
        (final_world (fetch_pokemon (example_runtime (answers 200 ditto_json) True) (py ''ditto'') bulbasaur_world)))) =
       [slot_entity, grown_entity\<lparr>pk := 2\<rparr>]
   \<and> filter (\<lambda>p. pokemon_id p = 132)
        (pokemons (final_world (fetch_pokemon (example_runtime (answers 200 grown_json) True) (py ''Ditto'')
          (final_world (fetch_pokemon (example_runtime (answers 200 ditto_json) True) (py ''ditto'') bulbasaur_world))))) =
       [grown_entity\<lparr>pk := 2\<rparr>]
   \<and> height (grown_entity\<lparr>pk := 2\<rparr>) = 4 \<and> height (ditto_entity\<lparr>pk := 2\<rparr>) = 3"
proof -
  have r1: "http_get (example_runtime (answers 200 ditto_json) True)
              (BASE_URL @ py_strip (py_lower (py ''ditto'')) @ py ''/'') = Inr (Response 200 (Inr ditto_json))"
    by (simp add: example_runtime_def answers_def)
  have r2: "http_get (example_runtime (answers 200 grown_json) True)
              (BASE_URL @ py_strip (py_lower (py ''Ditto'')) @ py ''/'') = Inr (Response 200 (Inr grown_json))"
    by (simp add: example_runtime_def answers_def)
  note main = later_upsert_overwrites_the_row [OF two_documents(4) r1 two_documents(1) r2 two_documents(2)
      two_documents(3) two_documents(5) two_documents(6)]
  from main have "filter (\<lambda>p. pokemon_id p = 132)
        (pokemons (final_world (fetch_pokemon (example_runtime (answers 200 grown_json) True) (py ''Ditto'')
          (final_world (fetch_pokemon (example_runtime (answers 200 ditto_json) True) (py ''ditto'') bulbasaur_world))))) =
       [grown_entity\<lparr>pk := 2\<rparr>]"
    by (simp add: Let_def two_documents(8) two_documents(9))
  moreover have "pokemons bulbasaur_world = [slot_entity]"
    by (simp add: bulbasaur_world_def)
  moreover have "height (grown_entity\<lparr>pk := 2\<rparr>) = 4 \<and> height (ditto_entity\<lparr>pk := 2\<rparr>) = 3"
    by (simp add: grown_entity_def ditto_entity_def)
  ultimately show ?thesis
    using two_fetches by simp
qed

end
